theory Spec2Isabelle
  imports Main "HOL-Library.Char_ord" "HOL-Library.List_Lexorder"
begin

section \<open>Package rediscache: a facade over a key-value store client\<close>

text \<open>
  The package wraps a \<^verbatim>\<open>*redis.Client\<close> (go-redis v8) and a \<^verbatim>\<open>*logger.Logger\<close>.
  Neither collaborator is part of the package, so both enter the model as records of
  functions over an abstract world \<open>'w\<close>: everything outside the process's own memory
  (the server, the connection pool, the log output). Go's \<^verbatim>\<open>int\<close>, \<^verbatim>\<open>int64\<close> and
  \<^verbatim>\<open>time.Duration\<close> are \<open>int\<close>: the package compares them with zero, stores constants
  and hands them on, and never computes with them. \<^verbatim>\<open>interface{}\<close> is the type
  parameter \<open>'v\<close> and \<^verbatim>\<open>float64\<close> the type parameter \<open>'f\<close>: values of both are
  only carried. A \<^verbatim>\<open>context.Context\<close> is a value the package hands on to the client
  and never looks into.
\<close>

subsection \<open>Errors\<close>

text \<open>
  An \<^verbatim>\<open>error\<close> is \<open>error option\<close>, \<open>None\<close> for \<^verbatim>\<open>nil\<close>. go-redis declares
  \<^verbatim>\<open>const Nil = proto.RedisError("redis: nil")\<close>; comparing an error with it by
  \<^verbatim>\<open>!=\<close> compares dynamic type and text.
\<close>

datatype error = RedisError string | OtherError string

definition redis_Nil :: error where
  "redis_Nil = RedisError ''redis: nil''"

fun Error :: "error \<Rightarrow> string" where
  "Error (RedisError s) = s"
| "Error (OtherError s) = s"

subsection \<open>Data\<close>

record Config =
  Host :: string
  Port :: int
  Password :: string
  DB :: int
  MaxRetries :: int
  PoolSize :: int

record ('v, 'f) Z =
  Score :: 'f
  Member :: 'v

record ZRangeBy =
  by_Min :: string
  by_Max :: string
  by_Offset :: int
  by_Count :: int

datatype Context = Background | WithCancel Context | WithTimeout Context int

datatype 'a completion = Returns 'a | Panics | Exits

text \<open>
  \<^verbatim>\<open>*logger.Logger\<close>: \<open>Info src msg\<close> is \<^verbatim>\<open>log.Info(src).Msgf(...)\<close> with the
  formatted message, \<open>Fatal src msg\<close> is \<^verbatim>\<open>log.Fatal(src).Msgf(...)\<close>. \<open>Info\<close>
  gives the world after the line is written. What a Fatal event does is the logger's
  business: \<open>Fatal\<close> gives \<open>Exits\<close> when writing the event ends the process, and
  \<open>Returns ()\<close> when the call comes back (a logger set to drop fatal events), with
  the world it leaves. The logger handed to \<open>NewCache\<close> is taken to be a logger, not
  \<^verbatim>\<open>nil\<close>.
\<close>

record 'w Logger =
  Info :: "string \<Rightarrow> string \<Rightarrow> 'w \<Rightarrow> 'w"
  Fatal :: "string \<Rightarrow> string \<Rightarrow> 'w \<Rightarrow> unit completion \<times> 'w"

text \<open>
  \<^verbatim>\<open>*redis.Client\<close>: one field per command the package calls, each standing for
  \<^verbatim>\<open>client.Cmd(ctx, args...).Result()\<close>; a variadic parameter is a list.
\<close>

record ('w, 'v, 'f) Client =
  client_Ping :: "Context \<Rightarrow> 'w \<Rightarrow> (string \<times> error option) \<times> 'w"
  client_Get :: "Context \<Rightarrow> string \<Rightarrow> 'w \<Rightarrow> (string \<times> error option) \<times> 'w"
  client_Set :: "Context \<Rightarrow> string \<Rightarrow> 'v \<Rightarrow> int \<Rightarrow> 'w \<Rightarrow> (string \<times> error option) \<times> 'w"
  client_Del :: "Context \<Rightarrow> string list \<Rightarrow> 'w \<Rightarrow> (int \<times> error option) \<times> 'w"
  client_ZAdd :: "Context \<Rightarrow> string \<Rightarrow> ('v, 'f) Z list \<Rightarrow> 'w \<Rightarrow> (int \<times> error option) \<times> 'w"
  client_ZCard :: "Context \<Rightarrow> string \<Rightarrow> 'w \<Rightarrow> (int \<times> error option) \<times> 'w"
  client_ZPopMin :: "Context \<Rightarrow> string \<Rightarrow> int list \<Rightarrow> 'w \<Rightarrow> (('v, 'f) Z list \<times> error option) \<times> 'w"
  client_ZScore :: "Context \<Rightarrow> string \<Rightarrow> string \<Rightarrow> 'w \<Rightarrow> ('f \<times> error option) \<times> 'w"
  client_ZRem :: "Context \<Rightarrow> string \<Rightarrow> string \<Rightarrow> 'w \<Rightarrow> (int \<times> error option) \<times> 'w"
  client_ZRange :: "Context \<Rightarrow> string \<Rightarrow> int \<Rightarrow> int \<Rightarrow> 'w \<Rightarrow> (string list \<times> error option) \<times> 'w"
  client_ZRangeByScore :: "Context \<Rightarrow> string \<Rightarrow> ZRangeBy \<Rightarrow> 'w \<Rightarrow> (string list \<times> error option) \<times> 'w"
  client_ZRangeByScoreWithScores ::
    "Context \<Rightarrow> string \<Rightarrow> ZRangeBy \<Rightarrow> 'w \<Rightarrow> (('v, 'f) Z list \<times> error option) \<times> 'w"
  client_RPush :: "Context \<Rightarrow> string \<Rightarrow> 'v list \<Rightarrow> 'w \<Rightarrow> (int \<times> error option) \<times> 'w"
  client_LLen :: "Context \<Rightarrow> string \<Rightarrow> 'w \<Rightarrow> (int \<times> error option) \<times> 'w"
  client_LRem :: "Context \<Rightarrow> string \<Rightarrow> int \<Rightarrow> 'v \<Rightarrow> 'w \<Rightarrow> (int \<times> error option) \<times> 'w"
  client_LSet :: "Context \<Rightarrow> string \<Rightarrow> int \<Rightarrow> 'v \<Rightarrow> 'w \<Rightarrow> (string \<times> error option) \<times> 'w"
  client_LPop :: "Context \<Rightarrow> string \<Rightarrow> 'w \<Rightarrow> (string \<times> error option) \<times> 'w"
  client_LRange :: "Context \<Rightarrow> string \<Rightarrow> int \<Rightarrow> int \<Rightarrow> 'w \<Rightarrow> (string list \<times> error option) \<times> 'w"
  client_LMove ::
    "Context \<Rightarrow> string \<Rightarrow> string \<Rightarrow> string \<Rightarrow> string \<Rightarrow> 'w \<Rightarrow> (string \<times> error option) \<times> 'w"
  client_SMembers :: "Context \<Rightarrow> string \<Rightarrow> 'w \<Rightarrow> (string list \<times> error option) \<times> 'w"
  client_SAdd :: "Context \<Rightarrow> string \<Rightarrow> 'v list \<Rightarrow> 'w \<Rightarrow> (int \<times> error option) \<times> 'w"
  client_Incr :: "Context \<Rightarrow> string \<Rightarrow> 'w \<Rightarrow> (int \<times> error option) \<times> 'w"
  client_Expire :: "Context \<Rightarrow> string \<Rightarrow> int \<Rightarrow> 'w \<Rightarrow> (bool \<times> error option) \<times> 'w"
  client_Close :: "'w \<Rightarrow> error option \<times> 'w"

text \<open>
  A \<^verbatim>\<open>*Config\<close> is an address into the heap of \<open>Config\<close> values, \<open>None\<close> for
  \<^verbatim>\<open>nil\<close>; reading a field through \<^verbatim>\<open>nil\<close> panics.
\<close>

type_synonym addr = nat

text \<open>
  \<^verbatim>\<open>redis.Options\<close>, the fields \<open>NewCache\<close> sets. The \<^verbatim>\<open>OnConnect\<close> callback is a
  closure over the facade: it reads the configuration behind the facade's pointer when
  it runs, so it takes the heap of that moment.
\<close>

record 'w Options =
  Addr :: string
  opt_Password :: string
  opt_DB :: int
  OnConnect :: "Context \<Rightarrow> (addr \<Rightarrow> Config) \<Rightarrow> 'w \<Rightarrow> error option \<times> 'w"
  opt_MaxRetries :: int
  opt_PoolSize :: int

text \<open>The \<open>client\<close> field is \<^verbatim>\<open>nil\<close> until \<open>NewCache\<close> assigns it.\<close>

record ('w, 'v, 'f) cache =
  client :: "('w, 'v, 'f) Client option"
  log :: "'w Logger"
  config :: "addr option"

record 'w state =
  heap :: "addr \<Rightarrow> Config"
  world :: 'w

subsection \<open>Formatting\<close>

text \<open>\<^verbatim>\<open>%d\<close> of \<^verbatim>\<open>fmt.Sprintf\<close>: decimal digits, a minus sign for a negative number.\<close>

fun dec :: "nat \<Rightarrow> string" where
  "dec n = (if n < 10 then [''0123456789'' ! n] else dec (n div 10) @ [''0123456789'' ! (n mod 10)])"

declare dec.simps [simp del]

definition fmt_d :: "int \<Rightarrow> string" where
  "fmt_d i = (if i < 0 then CHR ''-'' # dec (nat (- i)) else dec (nat i))"

subsection \<open>Construction\<close>

text \<open>
  \<^verbatim>\<open>func (c *cache) defaults()\<close>: five tests in sequence, each reading and writing
  the \<open>Config\<close> behind \<open>c.config\<close>.
\<close>

definition defaults :: "('w, 'v, 'f) cache \<Rightarrow> (addr \<Rightarrow> Config) \<Rightarrow> unit completion \<times> (addr \<Rightarrow> Config)" where
  "defaults c h =
     (case config c of
        None \<Rightarrow> (Panics, h)
      | Some a \<Rightarrow>
          let h1 = (if Host (h a) = '''' then h(a := (h a)\<lparr>Host := ''127.0.0.1''\<rparr>) else h);
              h2 = (if Port (h1 a) = 0 then h1(a := (h1 a)\<lparr>Port := 6379\<rparr>) else h1);
              h3 = (if DB (h2 a) = 0 then h2(a := (h2 a)\<lparr>DB := 0\<rparr>) else h2);
              h4 = (if MaxRetries (h3 a) = 0 then h3(a := (h3 a)\<lparr>MaxRetries := 3\<rparr>) else h3);
              h5 = (if PoolSize (h4 a) = 0 then h4(a := (h4 a)\<lparr>PoolSize := 10\<rparr>) else h4)
          in (Returns (), h5))"

text \<open>
  \<^verbatim>\<open>NewCache(conf, log)\<close>. \<open>NewClient\<close> stands for \<^verbatim>\<open>redis.NewClient\<close>, and
  \<open>options\<close> is the \<^verbatim>\<open>&redis.Options{...}\<close> literal, built from the configuration
  behind the pointer \<open>a\<close> once \<open>defaults\<close> has returned. After a failed ping the
  source calls \<^verbatim>\<open>log.Fatal("redis").Msgf(...)\<close> and has no \<^verbatim>\<open>return\<close> in that branch:
  if the logger's call comes back, \<open>NewCache\<close> goes on to assign the client and to
  return the facade with a \<^verbatim>\<open>nil\<close> error, as it does after a successful ping.
\<close>

definition options :: "addr \<Rightarrow> (addr \<Rightarrow> Config) \<Rightarrow> 'w Logger \<Rightarrow> 'w Options" where
  "options a h lg =
     \<lparr>Addr = Host (h a) @ '':'' @ fmt_d (Port (h a)),
      opt_Password = Password (h a),
      opt_DB = DB (h a),
      OnConnect = (\<lambda>ctx h' w.
        (None,
         Info lg ''redis'' (''connected to '' @ Host (h' a) @ '':'' @ fmt_d (Port (h' a))) w)),
      opt_MaxRetries = MaxRetries (h a),
      opt_PoolSize = PoolSize (h a)\<rparr>"

definition NewCache ::
  "('w Options \<Rightarrow> ('w, 'v, 'f) Client) \<Rightarrow> addr option \<Rightarrow> 'w Logger \<Rightarrow> 'w state
     \<Rightarrow> (('w, 'v, 'f) cache \<times> error option) completion \<times> 'w state" where
  "NewCache NewClient conf lg st =
     (let c = \<lparr>client = None, log = lg, config = conf\<rparr> in
      case defaults c (heap st) of
        (Panics, h) \<Rightarrow> (Panics, st\<lparr>heap := h\<rparr>)
      | (Exits, h) \<Rightarrow> (Exits, st\<lparr>heap := h\<rparr>)
      | (Returns _, h) \<Rightarrow>
          (case config c of
             None \<Rightarrow> (Panics, st\<lparr>heap := h\<rparr>)
           | Some a \<Rightarrow>
               let cl = NewClient (options a h lg);
                   ctx = Background
               in (case client_Ping cl ctx (world st) of
                     ((_, err), w) \<Rightarrow>
                       (case (case err of
                                None \<Rightarrow> (Returns (), w)
                              | Some e \<Rightarrow>
                                  Fatal lg ''redis'' (''Could not ping redis '' @ Error e) w) of
                          (Panics, w') \<Rightarrow> (Panics, \<lparr>heap = h, world = w'\<rparr>)
                        | (Exits, w') \<Rightarrow> (Exits, \<lparr>heap = h, world = w'\<rparr>)
                        | (Returns _, w') \<Rightarrow>
                            (Returns (c\<lparr>client := Some cl\<rparr>, None),
                             \<lparr>heap = h, world = w'\<rparr>)))))"

subsection \<open>Operations\<close>

text \<open>
  Every method has the same body: call the client, and return the response with the
  error unless the error is \<^verbatim>\<open>nil\<close> or \<^verbatim>\<open>redis.Nil\<close>, in which case return the
  response with \<^verbatim>\<open>nil\<close>. Calling a method of a \<^verbatim>\<open>nil\<close> client panics.
\<close>

definition GetClient :: "('w, 'v, 'f) cache \<Rightarrow> ('w, 'v, 'f) Client option" where
  "GetClient c = client c"

definition Close :: "('w, 'v, 'f) cache \<Rightarrow> 'w state \<Rightarrow> error option completion \<times> 'w state" where
  "Close c st =
     (case client c of
        None \<Rightarrow> (Panics, st)
      | Some cl \<Rightarrow> (case client_Close cl (world st) of (err, w) \<Rightarrow> (Returns err, st\<lparr>world := w\<rparr>)))"

definition Get ::
  "('w, 'v, 'f) cache \<Rightarrow> Context \<Rightarrow> string \<Rightarrow> 'w state
     \<Rightarrow> (string \<times> error option) completion \<times> 'w state" where
  "Get c ctx key st =
     (case client c of
        None \<Rightarrow> (Panics, st)
      | Some cl \<Rightarrow>
          (case client_Get cl ctx key (world st) of
             ((response, err), w) \<Rightarrow>
               if err \<noteq> None \<and> err \<noteq> Some redis_Nil
               then (Returns (response, err), st\<lparr>world := w\<rparr>)
               else (Returns (response, None), st\<lparr>world := w\<rparr>)))"

definition Set ::
  "('w, 'v, 'f) cache \<Rightarrow> Context \<Rightarrow> string \<Rightarrow> 'v \<Rightarrow> int \<Rightarrow> 'w state
     \<Rightarrow> (string \<times> error option) completion \<times> 'w state" where
  "Set c ctx key value expiration st =
     (case client c of
        None \<Rightarrow> (Panics, st)
      | Some cl \<Rightarrow>
          (case client_Set cl ctx key value expiration (world st) of
             ((response, err), w) \<Rightarrow>
               if err \<noteq> None \<and> err \<noteq> Some redis_Nil
               then (Returns (response, err), st\<lparr>world := w\<rparr>)
               else (Returns (response, None), st\<lparr>world := w\<rparr>)))"

definition Del ::
  "('w, 'v, 'f) cache \<Rightarrow> Context \<Rightarrow> string list \<Rightarrow> 'w state
     \<Rightarrow> (int \<times> error option) completion \<times> 'w state" where
  "Del c ctx keys st =
     (case client c of
        None \<Rightarrow> (Panics, st)
      | Some cl \<Rightarrow>
          (case client_Del cl ctx keys (world st) of
             ((response, err), w) \<Rightarrow>
               if err \<noteq> None \<and> err \<noteq> Some redis_Nil
               then (Returns (response, err), st\<lparr>world := w\<rparr>)
               else (Returns (response, None), st\<lparr>world := w\<rparr>)))"

definition ZAdd ::
  "('w, 'v, 'f) cache \<Rightarrow> Context \<Rightarrow> string \<Rightarrow> ('v, 'f) Z list \<Rightarrow> 'w state
     \<Rightarrow> (int \<times> error option) completion \<times> 'w state" where
  "ZAdd c ctx key members st =
     (case client c of
        None \<Rightarrow> (Panics, st)
      | Some cl \<Rightarrow>
          (case client_ZAdd cl ctx key members (world st) of
             ((response, err), w) \<Rightarrow>
               if err \<noteq> None \<and> err \<noteq> Some redis_Nil
               then (Returns (response, err), st\<lparr>world := w\<rparr>)
               else (Returns (response, None), st\<lparr>world := w\<rparr>)))"

definition ZCard ::
  "('w, 'v, 'f) cache \<Rightarrow> Context \<Rightarrow> string \<Rightarrow> 'w state
     \<Rightarrow> (int \<times> error option) completion \<times> 'w state" where
  "ZCard c ctx key st =
     (case client c of
        None \<Rightarrow> (Panics, st)
      | Some cl \<Rightarrow>
          (case client_ZCard cl ctx key (world st) of
             ((response, err), w) \<Rightarrow>
               if err \<noteq> None \<and> err \<noteq> Some redis_Nil
               then (Returns (response, err), st\<lparr>world := w\<rparr>)
               else (Returns (response, None), st\<lparr>world := w\<rparr>)))"

definition ZPopMin ::
  "('w, 'v, 'f) cache \<Rightarrow> Context \<Rightarrow> string \<Rightarrow> int list \<Rightarrow> 'w state
     \<Rightarrow> (('v, 'f) Z list \<times> error option) completion \<times> 'w state" where
  "ZPopMin c ctx key count st =
     (case client c of
        None \<Rightarrow> (Panics, st)
      | Some cl \<Rightarrow>
          (case client_ZPopMin cl ctx key count (world st) of
             ((response, err), w) \<Rightarrow>
               if err \<noteq> None \<and> err \<noteq> Some redis_Nil
               then (Returns (response, err), st\<lparr>world := w\<rparr>)
               else (Returns (response, None), st\<lparr>world := w\<rparr>)))"

definition ZScore ::
  "('w, 'v, 'f) cache \<Rightarrow> Context \<Rightarrow> string \<Rightarrow> string \<Rightarrow> 'w state
     \<Rightarrow> ('f \<times> error option) completion \<times> 'w state" where
  "ZScore c ctx key member st =
     (case client c of
        None \<Rightarrow> (Panics, st)
      | Some cl \<Rightarrow>
          (case client_ZScore cl ctx key member (world st) of
             ((response, err), w) \<Rightarrow>
               if err \<noteq> None \<and> err \<noteq> Some redis_Nil
               then (Returns (response, err), st\<lparr>world := w\<rparr>)
               else (Returns (response, None), st\<lparr>world := w\<rparr>)))"

definition ZRem ::
  "('w, 'v, 'f) cache \<Rightarrow> Context \<Rightarrow> string \<Rightarrow> string \<Rightarrow> 'w state
     \<Rightarrow> (int \<times> error option) completion \<times> 'w state" where
  "ZRem c ctx key member st =
     (case client c of
        None \<Rightarrow> (Panics, st)
      | Some cl \<Rightarrow>
          (case client_ZRem cl ctx key member (world st) of
             ((response, err), w) \<Rightarrow>
               if err \<noteq> None \<and> err \<noteq> Some redis_Nil
               then (Returns (response, err), st\<lparr>world := w\<rparr>)
               else (Returns (response, None), st\<lparr>world := w\<rparr>)))"

definition ZRange ::
  "('w, 'v, 'f) cache \<Rightarrow> Context \<Rightarrow> string \<Rightarrow> int \<Rightarrow> int \<Rightarrow> 'w state
     \<Rightarrow> (string list \<times> error option) completion \<times> 'w state" where
  "ZRange c ctx key start stop st =
     (case client c of
        None \<Rightarrow> (Panics, st)
      | Some cl \<Rightarrow>
          (case client_ZRange cl ctx key start stop (world st) of
             ((response, err), w) \<Rightarrow>
               if err \<noteq> None \<and> err \<noteq> Some redis_Nil
               then (Returns (response, err), st\<lparr>world := w\<rparr>)
               else (Returns (response, None), st\<lparr>world := w\<rparr>)))"

definition ZRangeByScoreWithScores ::
  "('w, 'v, 'f) cache \<Rightarrow> Context \<Rightarrow> string \<Rightarrow> string \<Rightarrow> string \<Rightarrow> int \<Rightarrow> int \<Rightarrow> 'w state
     \<Rightarrow> (('v, 'f) Z list \<times> error option) completion \<times> 'w state" where
  "ZRangeByScoreWithScores c ctx key mn mx offset count st =
     (case client c of
        None \<Rightarrow> (Panics, st)
      | Some cl \<Rightarrow>
          (case client_ZRangeByScoreWithScores cl ctx key \<lparr>by_Min = mn, by_Max = mx, by_Offset = offset, by_Count = count\<rparr> (world st) of
             ((response, err), w) \<Rightarrow>
               if err \<noteq> None \<and> err \<noteq> Some redis_Nil
               then (Returns (response, err), st\<lparr>world := w\<rparr>)
               else (Returns (response, None), st\<lparr>world := w\<rparr>)))"

definition ZRangeByScore ::
  "('w, 'v, 'f) cache \<Rightarrow> Context \<Rightarrow> string \<Rightarrow> string \<Rightarrow> string \<Rightarrow> int \<Rightarrow> int \<Rightarrow> 'w state
     \<Rightarrow> (string list \<times> error option) completion \<times> 'w state" where
  "ZRangeByScore c ctx key mn mx offset count st =
     (case client c of
        None \<Rightarrow> (Panics, st)
      | Some cl \<Rightarrow>
          (case client_ZRangeByScore cl ctx key \<lparr>by_Min = mn, by_Max = mx, by_Offset = offset, by_Count = count\<rparr> (world st) of
             ((response, err), w) \<Rightarrow>
               if err \<noteq> None \<and> err \<noteq> Some redis_Nil
               then (Returns (response, err), st\<lparr>world := w\<rparr>)
               else (Returns (response, None), st\<lparr>world := w\<rparr>)))"

definition RPush ::
  "('w, 'v, 'f) cache \<Rightarrow> Context \<Rightarrow> string \<Rightarrow> 'v list \<Rightarrow> 'w state
     \<Rightarrow> (int \<times> error option) completion \<times> 'w state" where
  "RPush c ctx key values st =
     (case client c of
        None \<Rightarrow> (Panics, st)
      | Some cl \<Rightarrow>
          (case client_RPush cl ctx key values (world st) of
             ((response, err), w) \<Rightarrow>
               if err \<noteq> None \<and> err \<noteq> Some redis_Nil
               then (Returns (response, err), st\<lparr>world := w\<rparr>)
               else (Returns (response, None), st\<lparr>world := w\<rparr>)))"

definition LLen ::
  "('w, 'v, 'f) cache \<Rightarrow> Context \<Rightarrow> string \<Rightarrow> 'w state
     \<Rightarrow> (int \<times> error option) completion \<times> 'w state" where
  "LLen c ctx key st =
     (case client c of
        None \<Rightarrow> (Panics, st)
      | Some cl \<Rightarrow>
          (case client_LLen cl ctx key (world st) of
             ((response, err), w) \<Rightarrow>
               if err \<noteq> None \<and> err \<noteq> Some redis_Nil
               then (Returns (response, err), st\<lparr>world := w\<rparr>)
               else (Returns (response, None), st\<lparr>world := w\<rparr>)))"

definition LRem ::
  "('w, 'v, 'f) cache \<Rightarrow> Context \<Rightarrow> string \<Rightarrow> int \<Rightarrow> 'v \<Rightarrow> 'w state
     \<Rightarrow> (int \<times> error option) completion \<times> 'w state" where
  "LRem c ctx key count value st =
     (case client c of
        None \<Rightarrow> (Panics, st)
      | Some cl \<Rightarrow>
          (case client_LRem cl ctx key count value (world st) of
             ((response, err), w) \<Rightarrow>
               if err \<noteq> None \<and> err \<noteq> Some redis_Nil
               then (Returns (response, err), st\<lparr>world := w\<rparr>)
               else (Returns (response, None), st\<lparr>world := w\<rparr>)))"

definition LSet ::
  "('w, 'v, 'f) cache \<Rightarrow> Context \<Rightarrow> string \<Rightarrow> int \<Rightarrow> 'v \<Rightarrow> 'w state
     \<Rightarrow> (string \<times> error option) completion \<times> 'w state" where
  "LSet c ctx key index value st =
     (case client c of
        None \<Rightarrow> (Panics, st)
      | Some cl \<Rightarrow>
          (case client_LSet cl ctx key index value (world st) of
             ((response, err), w) \<Rightarrow>
               if err \<noteq> None \<and> err \<noteq> Some redis_Nil
               then (Returns (response, err), st\<lparr>world := w\<rparr>)
               else (Returns (response, None), st\<lparr>world := w\<rparr>)))"

definition LPop ::
  "('w, 'v, 'f) cache \<Rightarrow> Context \<Rightarrow> string \<Rightarrow> 'w state
     \<Rightarrow> (string \<times> error option) completion \<times> 'w state" where
  "LPop c ctx key st =
     (case client c of
        None \<Rightarrow> (Panics, st)
      | Some cl \<Rightarrow>
          (case client_LPop cl ctx key (world st) of
             ((response, err), w) \<Rightarrow>
               if err \<noteq> None \<and> err \<noteq> Some redis_Nil
               then (Returns (response, err), st\<lparr>world := w\<rparr>)
               else (Returns (response, None), st\<lparr>world := w\<rparr>)))"

definition LRange ::
  "('w, 'v, 'f) cache \<Rightarrow> Context \<Rightarrow> string \<Rightarrow> int \<Rightarrow> int \<Rightarrow> 'w state
     \<Rightarrow> (string list \<times> error option) completion \<times> 'w state" where
  "LRange c ctx key start stop st =
     (case client c of
        None \<Rightarrow> (Panics, st)
      | Some cl \<Rightarrow>
          (case client_LRange cl ctx key start stop (world st) of
             ((response, err), w) \<Rightarrow>
               if err \<noteq> None \<and> err \<noteq> Some redis_Nil
               then (Returns (response, err), st\<lparr>world := w\<rparr>)
               else (Returns (response, None), st\<lparr>world := w\<rparr>)))"

definition LMove ::
  "('w, 'v, 'f) cache \<Rightarrow> Context \<Rightarrow> string \<Rightarrow> string \<Rightarrow> string \<Rightarrow> string \<Rightarrow> 'w state
     \<Rightarrow> (string \<times> error option) completion \<times> 'w state" where
  "LMove c ctx source destination srcpos destpos st =
     (case client c of
        None \<Rightarrow> (Panics, st)
      | Some cl \<Rightarrow>
          (case client_LMove cl ctx source destination srcpos destpos (world st) of
             ((response, err), w) \<Rightarrow>
               if err \<noteq> None \<and> err \<noteq> Some redis_Nil
               then (Returns (response, err), st\<lparr>world := w\<rparr>)
               else (Returns (response, None), st\<lparr>world := w\<rparr>)))"

definition SMembers ::
  "('w, 'v, 'f) cache \<Rightarrow> Context \<Rightarrow> string \<Rightarrow> 'w state
     \<Rightarrow> (string list \<times> error option) completion \<times> 'w state" where
  "SMembers c ctx key st =
     (case client c of
        None \<Rightarrow> (Panics, st)
      | Some cl \<Rightarrow>
          (case client_SMembers cl ctx key (world st) of
             ((response, err), w) \<Rightarrow>
               if err \<noteq> None \<and> err \<noteq> Some redis_Nil
               then (Returns (response, err), st\<lparr>world := w\<rparr>)
               else (Returns (response, None), st\<lparr>world := w\<rparr>)))"

definition SAdd ::
  "('w, 'v, 'f) cache \<Rightarrow> Context \<Rightarrow> string \<Rightarrow> 'v list \<Rightarrow> 'w state
     \<Rightarrow> (int \<times> error option) completion \<times> 'w state" where
  "SAdd c ctx key members st =
     (case client c of
        None \<Rightarrow> (Panics, st)
      | Some cl \<Rightarrow>
          (case client_SAdd cl ctx key members (world st) of
             ((response, err), w) \<Rightarrow>
               if err \<noteq> None \<and> err \<noteq> Some redis_Nil
               then (Returns (response, err), st\<lparr>world := w\<rparr>)
               else (Returns (response, None), st\<lparr>world := w\<rparr>)))"

definition Ping ::
  "('w, 'v, 'f) cache \<Rightarrow> Context \<Rightarrow> 'w state
     \<Rightarrow> (string \<times> error option) completion \<times> 'w state" where
  "Ping c ctx st =
     (case client c of
        None \<Rightarrow> (Panics, st)
      | Some cl \<Rightarrow>
          (case client_Ping cl ctx (world st) of
             ((response, err), w) \<Rightarrow>
               if err \<noteq> None \<and> err \<noteq> Some redis_Nil
               then (Returns (response, err), st\<lparr>world := w\<rparr>)
               else (Returns (response, None), st\<lparr>world := w\<rparr>)))"

definition Incr ::
  "('w, 'v, 'f) cache \<Rightarrow> Context \<Rightarrow> string \<Rightarrow> 'w state
     \<Rightarrow> (int \<times> error option) completion \<times> 'w state" where
  "Incr c ctx key st =
     (case client c of
        None \<Rightarrow> (Panics, st)
      | Some cl \<Rightarrow>
          (case client_Incr cl ctx key (world st) of
             ((response, err), w) \<Rightarrow>
               if err \<noteq> None \<and> err \<noteq> Some redis_Nil
               then (Returns (response, err), st\<lparr>world := w\<rparr>)
               else (Returns (response, None), st\<lparr>world := w\<rparr>)))"

definition Expire ::
  "('w, 'v, 'f) cache \<Rightarrow> Context \<Rightarrow> string \<Rightarrow> int \<Rightarrow> 'w state
     \<Rightarrow> (bool \<times> error option) completion \<times> 'w state" where
  "Expire c ctx key expiration st =
     (case client c of
        None \<Rightarrow> (Panics, st)
      | Some cl \<Rightarrow>
          (case client_Expire cl ctx key expiration (world st) of
             ((response, err), w) \<Rightarrow>
               if err \<noteq> None \<and> err \<noteq> Some redis_Nil
               then (Returns (response, err), st\<lparr>world := w\<rparr>)
               else (Returns (response, None), st\<lparr>world := w\<rparr>)))"

subsection \<open>Sequences of calls\<close>

text \<open>
  \<open>pop_each c ctx key n\<close>: \<open>n\<close> times, \<open>ZPopMin\<close> with no count and then \<open>ZRange\<close>
  over the whole key, each call on the state the one before left.
\<close>

fun pop_each ::
  "('w, 'v, 'f) cache \<Rightarrow> Context \<Rightarrow> string \<Rightarrow> nat \<Rightarrow> 'w state
     \<Rightarrow> ((('v, 'f) Z list \<times> error option) completion
          \<times> (string list \<times> error option) completion) list \<times> 'w state" where
  "pop_each c ctx key 0 st = ([], st)"
| "pop_each c ctx key (Suc n) st =
     (case ZPopMin c ctx key [] st of
        (popped, st1) \<Rightarrow>
          (case ZRange c ctx key 0 (- 1) st1 of
             (rest, st2) \<Rightarrow>
               (case pop_each c ctx key n st2 of
                  (others, st3) \<Rightarrow> ((popped, rest) # others, st3))))"

subsection \<open>The store\<close>

text \<open>
  Modelled from the spec: the store and the client's connection to it, which belong to
  the go-redis library and the server and not to this package. The spec describes the
  store by what it must show through the facade (a value set is the value got, a sorted
  set gives up its members lowest score first, a list move takes the head of one list to
  the tail of another, an absent key answers the sentinel, a closed facade's ping fails)
  and leaves the rest to the store's own command reference, which the model follows for
  the commands written out here. A key holds a string, a list or a sorted set; a list or
  sorted set that becomes empty is gone. Values and members are strings; scores are of
  any linearly ordered type (the store takes no score that is not a number). The model
  has no clock and no cancellation: no key expires between two calls, and the context
  of every call is taken to be live.
\<close>

text \<open>Modelled from the spec: what a key of the store holds.\<close>

datatype 'f entry = Str string | Lst "string list" | ZSet "(string, 'f) Z list"

text \<open>Modelled from the spec: the state of the client's connection to the store.\<close>

datatype link = Connected | Unreachable string | Closed

text \<open>Modelled from the spec: the store as one client sees it, its connection and its keys.\<close>

record 'f store =
  conn :: link
  data :: "string \<Rightarrow> 'f entry option"

text \<open>Modelled from the spec: the error of a closed client, which is not the sentinel.\<close>

definition ErrClosed :: error where
  "ErrClosed = OtherError ''redis: client is closed''"

text \<open>Modelled from the spec: the store's error for a key that holds another kind of value.\<close>

definition WRONGTYPE :: error where
  "WRONGTYPE = RedisError ''WRONGTYPE Operation against a key holding the wrong kind of value''"

text \<open>Modelled from the spec: the store's error for an end of a list that is neither left nor right.\<close>

definition syntax_error :: error where
  "syntax_error = RedisError ''ERR syntax error''"

text \<open>Modelled from the spec: the store's error for a negative count.\<close>

definition out_of_range :: error where
  "out_of_range = RedisError ''ERR value is out of range, must be positive''"

text \<open>Modelled from the spec: the store's error for a command sent without its values.\<close>

definition wrong_arity :: "string \<Rightarrow> error" where
  "wrong_arity cmd =
     RedisError (''ERR wrong number of arguments for '' @ [CHR 0x27] @ cmd @ [CHR 0x27] @ '' command'')"

text \<open>
  Modelled from the spec: a command reaches the store only over a live connection. A
  client that cannot reach the store answers the zero value and its dial error (an
  error of the network, with the text given), a closed client the zero value and
  \<^verbatim>\<open>redis: client is closed\<close>; neither touches the store.
\<close>

definition answer ::
  "'f store \<Rightarrow> 'a \<Rightarrow> ('a \<times> error option) \<times> 'f store \<Rightarrow> ('a \<times> error option) \<times> 'f store" where
  "answer w zero reply =
     (case conn w of
        Connected \<Rightarrow> reply
      | Unreachable reason \<Rightarrow> ((zero, Some (OtherError reason)), w)
      | Closed \<Rightarrow> ((zero, Some ErrClosed), w))"

text \<open>
  Modelled from the spec: the order of a sorted set, ascending score, members of equal
  score in the order of their bytes.
\<close>

definition before :: "(string, 'f::linorder) Z \<Rightarrow> (string, 'f) Z \<Rightarrow> bool" where
  "before y z = (Score y < Score z \<or> (Score y = Score z \<and> Member y < Member z))"

text \<open>Modelled from the spec: a member put at its place in a sorted set that does not hold it.\<close>

fun zinsert :: "(string, 'f::linorder) Z \<Rightarrow> (string, 'f) Z list \<Rightarrow> (string, 'f) Z list" where
  "zinsert z [] = [z]"
| "zinsert z (y # ys) = (if before z y then z # y # ys else y # zinsert z ys)"

text \<open>Modelled from the spec: one member added to a sorted set, or moved to its new score.\<close>

definition zadd1 :: "(string, 'f::linorder) Z \<Rightarrow> (string, 'f) Z list \<Rightarrow> (string, 'f) Z list" where
  "zadd1 z zs = zinsert z (filter (\<lambda>y. Member y \<noteq> Member z) zs)"

text \<open>
  Modelled from the spec: a range by index, both ends included, a negative index
  counting from the end.
\<close>

definition slice :: "int \<Rightarrow> int \<Rightarrow> 'a list \<Rightarrow> 'a list" where
  "slice start stop xs =
     (let n = int (length xs);
          s = (if start < 0 then max 0 (n + start) else start);
          e = (if stop < 0 then n + stop else min stop (n - 1))
      in if e < s then [] else take (nat (e - s + 1)) (drop (nat s) xs))"

text \<open>Modelled from the spec: the two ends of a list.\<close>

datatype side = Left | Right

text \<open>Modelled from the spec: a letter in upper case.\<close>

definition to_upper :: "char \<Rightarrow> char" where
  "to_upper ch =
     (case map_of (zip ''abcdefghijklmnopqrstuvwxyz'' ''ABCDEFGHIJKLMNOPQRSTUVWXYZ'') ch of
        None \<Rightarrow> ch
      | Some up \<Rightarrow> up)"

text \<open>Modelled from the spec: the end of a list a position names.\<close>

definition side_of :: "string \<Rightarrow> side option" where
  "side_of s =
     (if map to_upper s = ''LEFT'' then Some Left
      else if map to_upper s = ''RIGHT'' then Some Right
      else None)"

text \<open>Modelled from the spec: the liveness probe.\<close>

definition store_Ping :: "Context \<Rightarrow> 'f store \<Rightarrow> (string \<times> error option) \<times> 'f store" where
  "store_Ping ctx w = answer w '''' ((''PONG'', None), w)"

text \<open>
  Modelled from the spec: scalar get. An absent key answers the empty string and the
  sentinel.
\<close>

definition store_Get :: "Context \<Rightarrow> string \<Rightarrow> 'f store \<Rightarrow> (string \<times> error option) \<times> 'f store" where
  "store_Get ctx key w =
     answer w ''''
       (case data w key of
          None \<Rightarrow> (('''', Some redis_Nil), w)
        | Some (Str v) \<Rightarrow> ((v, None), w)
        | Some (Lst _) \<Rightarrow> (('''', Some WRONGTYPE), w)
        | Some (ZSet _) \<Rightarrow> (('''', Some WRONGTYPE), w))"

text \<open>Modelled from the spec: scalar set, whatever the expiry: no time passes in the model.\<close>

definition store_Set ::
  "Context \<Rightarrow> string \<Rightarrow> string \<Rightarrow> int \<Rightarrow> 'f store \<Rightarrow> (string \<times> error option) \<times> 'f store" where
  "store_Set ctx key v expiration w =
     answer w '''' ((''OK'', None), w\<lparr>data := (data w)(key \<mapsto> Str v)\<rparr>)"

text \<open>
  Modelled from the spec: sorted-set insert into a key that holds a sorted set or
  nothing, answering how many members are new.
\<close>

definition store_ZAdd ::
  "Context \<Rightarrow> string \<Rightarrow> (string, 'f::linorder) Z list \<Rightarrow> 'f store
     \<Rightarrow> (int \<times> error option) \<times> 'f store" where
  "store_ZAdd ctx key members w =
     answer w 0
       (if members = [] then ((0, Some (wrong_arity ''zadd'')), w)
        else
          (case data w key of
             Some (Str _) \<Rightarrow> ((0, Some WRONGTYPE), w)
           | Some (Lst _) \<Rightarrow> ((0, Some WRONGTYPE), w)
           | held \<Rightarrow>
               let zs = (case held of Some (ZSet ys) \<Rightarrow> ys | _ \<Rightarrow> []);
                   zs' = fold zadd1 members zs
               in ((int (length zs') - int (length zs), None),
                   w\<lparr>data := (data w)(key \<mapsto> ZSet zs')\<rparr>)))"

text \<open>Modelled from the spec: pop-minimum, which takes the lowest members off the set.\<close>

definition store_ZPopMin ::
  "Context \<Rightarrow> string \<Rightarrow> int list \<Rightarrow> 'f store
     \<Rightarrow> ((string, 'f) Z list \<times> error option) \<times> 'f store" where
  "store_ZPopMin ctx key count w =
     answer w []
       (let k = (case count of [] \<Rightarrow> 1 | k # _ \<Rightarrow> k) in
        if k < 0 then (([], Some out_of_range), w)
        else
          (case data w key of
             None \<Rightarrow> (([], None), w)
           | Some (Str _) \<Rightarrow> (([], Some WRONGTYPE), w)
           | Some (Lst _) \<Rightarrow> (([], Some WRONGTYPE), w)
           | Some (ZSet zs) \<Rightarrow>
               ((take (nat k) zs, None),
                w\<lparr>data :=
                    (if drop (nat k) zs = [] then (data w)(key := None)
                     else (data w)(key \<mapsto> ZSet (drop (nat k) zs)))\<rparr>)))"

text \<open>Modelled from the spec: the members of a sorted set by rank, lowest score first.\<close>

definition store_ZRange ::
  "Context \<Rightarrow> string \<Rightarrow> int \<Rightarrow> int \<Rightarrow> 'f store \<Rightarrow> (string list \<times> error option) \<times> 'f store" where
  "store_ZRange ctx key start stop w =
     answer w []
       (case data w key of
          None \<Rightarrow> (([], None), w)
        | Some (Str _) \<Rightarrow> (([], Some WRONGTYPE), w)
        | Some (Lst _) \<Rightarrow> (([], Some WRONGTYPE), w)
        | Some (ZSet zs) \<Rightarrow> ((slice start stop (map Member zs), None), w))"

text \<open>Modelled from the spec: list right-push, answering the new length.\<close>

definition store_RPush ::
  "Context \<Rightarrow> string \<Rightarrow> string list \<Rightarrow> 'f store \<Rightarrow> (int \<times> error option) \<times> 'f store" where
  "store_RPush ctx key vals w =
     answer w 0
       (if vals = [] then ((0, Some (wrong_arity ''rpush'')), w)
        else
          (case data w key of
             Some (Str _) \<Rightarrow> ((0, Some WRONGTYPE), w)
           | Some (ZSet _) \<Rightarrow> ((0, Some WRONGTYPE), w)
           | held \<Rightarrow>
               let xs = (case held of Some (Lst ys) \<Rightarrow> ys | _ \<Rightarrow> [])
               in ((int (length (xs @ vals)), None),
                   w\<lparr>data := (data w)(key \<mapsto> Lst (xs @ vals))\<rparr>)))"

text \<open>Modelled from the spec: the elements of a list by index.\<close>

definition store_LRange ::
  "Context \<Rightarrow> string \<Rightarrow> int \<Rightarrow> int \<Rightarrow> 'f store \<Rightarrow> (string list \<times> error option) \<times> 'f store" where
  "store_LRange ctx key start stop w =
     answer w []
       (case data w key of
          None \<Rightarrow> (([], None), w)
        | Some (Str _) \<Rightarrow> (([], Some WRONGTYPE), w)
        | Some (ZSet _) \<Rightarrow> (([], Some WRONGTYPE), w)
        | Some (Lst xs) \<Rightarrow> ((slice start stop xs, None), w))"

text \<open>Modelled from the spec: the atomic move between lists; onto the list it came from, the
  element goes to the other end of that list.\<close>

definition store_LMove ::
  "Context \<Rightarrow> string \<Rightarrow> string \<Rightarrow> string \<Rightarrow> string \<Rightarrow> 'f store
     \<Rightarrow> (string \<times> error option) \<times> 'f store" where
  "store_LMove ctx source destination srcpos destpos w =
     answer w ''''
       (case (side_of srcpos, side_of destpos) of
          (Some s1, Some s2) \<Rightarrow>
            (case data w source of
               None \<Rightarrow> (('''', Some redis_Nil), w)
             | Some (Str _) \<Rightarrow> (('''', Some WRONGTYPE), w)
             | Some (ZSet _) \<Rightarrow> (('''', Some WRONGTYPE), w)
             | Some (Lst []) \<Rightarrow> (('''', Some redis_Nil), w)
             | Some (Lst (x # xs)) \<Rightarrow>
                 (case data w destination of
                    Some (Str _) \<Rightarrow> (('''', Some WRONGTYPE), w)
                  | Some (ZSet _) \<Rightarrow> (('''', Some WRONGTYPE), w)
                  | _ \<Rightarrow>
                      let moved = (if s1 = Left then x else last (x # xs));
                          kept = (if s1 = Left then xs else butlast (x # xs));
                          d1 = (if kept = [] then (data w)(source := None)
                                else (data w)(source \<mapsto> Lst kept));
                          there = (case d1 destination of Some (Lst ys) \<Rightarrow> ys | _ \<Rightarrow> []);
                          d2 = d1(destination \<mapsto>
                                 Lst (if s2 = Left then moved # there else there @ [moved]))
                      in ((moved, None), w\<lparr>data := d2\<rparr>)))
        | _ \<Rightarrow> (('''', Some syntax_error), w))"

text \<open>
  Modelled from the spec: close releases the connection; every command after it,
  a second close too, answers \<^verbatim>\<open>redis: client is closed\<close>.
\<close>

definition store_Close :: "'f store \<Rightarrow> error option \<times> 'f store" where
  "store_Close w =
     (case conn w of
        Closed \<Rightarrow> (Some ErrClosed, w)
      | _ \<Rightarrow> (None, w\<lparr>conn := Closed\<rparr>))"

text \<open>
  Modelled from the spec: the client over the store. The commands written out above
  are the store's; every other command, and \<open>ZPopMin\<close> called with two counts or more
  (which go-redis refuses before it reaches the store), stays with the client \<open>rest\<close>
  given.
\<close>

definition store_client ::
  "('f store, string, 'f) Client \<Rightarrow> ('f::linorder store, string, 'f) Client" where
  "store_client rest =
     rest\<lparr>client_Ping := store_Ping,
          client_Get := store_Get,
          client_Set := store_Set,
          client_ZAdd := store_ZAdd,
          client_ZPopMin := (\<lambda>ctx key count w.
            case count of
              _ # _ # _ \<Rightarrow> client_ZPopMin rest ctx key count w
            | _ \<Rightarrow> store_ZPopMin ctx key count w),
          client_ZRange := store_ZRange,
          client_RPush := store_RPush,
          client_LRange := store_LRange,
          client_LMove := store_LMove,
          client_Close := store_Close\<rparr>"

subsection \<open>What a method does with the client's reply\<close>

text \<open>
  \<open>passes reply st result\<close>: the rule of the package for one call. The client answered
  \<open>reply\<close> in state \<open>st\<close>; \<open>result\<close> is the response with \<^verbatim>\<open>nil\<close> if the error was the
  absent sentinel, and the response with the client's own error otherwise, in the state
  whose world the client left.
\<close>

definition passes ::
  "('a \<times> error option) \<times> 'w \<Rightarrow> 'w state \<Rightarrow> ('a \<times> error option) completion \<times> 'w state \<Rightarrow> bool" where
  "passes reply st result =
     (case reply of
        ((response, err), w) \<Rightarrow>
          if err = Some redis_Nil
          then result = (Returns (response, None), st\<lparr>world := w\<rparr>)
          else result = (Returns (response, err), st\<lparr>world := w\<rparr>))"

text \<open>
  The configuration \<open>defaults\<close> is to leave behind: the documented default in place of
  an empty host, a zero port, a zero retry count and a zero pool size, every other
  field as it was (the default database index is zero itself).
\<close>

definition resolved :: "Config \<Rightarrow> Config" where
  "resolved cf =
     \<lparr>Host = (if Host cf = [] then ''127.0.0.1'' else Host cf),
      Port = (if Port cf = 0 then 6379 else Port cf),
      Password = Password cf,
      DB = DB cf,
      MaxRetries = (if MaxRetries cf = 0 then 3 else MaxRetries cf),
      PoolSize = (if PoolSize cf = 0 then 10 else PoolSize cf)\<rparr>"

text \<open>
  What \<open>pop_each\<close> is to return on a sorted set whose members, lowest score first,
  are \<open>zs\<close>: one member per call in that order, and after each call a range that holds
  the members still to come and no others.
\<close>

primrec pops_of ::
  "(string, 'f) Z list
     \<Rightarrow> (((string, 'f) Z list \<times> error option) completion
          \<times> (string list \<times> error option) completion) list" where
  "pops_of [] = []"
| "pops_of (z # zs) = (Returns ([z], None), Returns (map Member zs, None)) # pops_of zs"

subsection \<open>Inputs for the examples\<close>

text \<open>
  A client that knows no command, to stand behind the store for the commands the store
  does not model; a logger whose Fatal event ends the process and one that drops it;
  stores with whole-number scores.
\<close>

definition unknown_command :: error where
  "unknown_command = RedisError ''ERR unknown command''"

definition no_commands :: "(int store, string, int) Client" where
  "no_commands =
     \<lparr>client_Ping = (\<lambda>ctx w. (('''', Some unknown_command), w)),
      client_Get = (\<lambda>ctx x1 w. (('''', Some unknown_command), w)),
      client_Set = (\<lambda>ctx x1 x2 x3 w. (('''', Some unknown_command), w)),
      client_Del = (\<lambda>ctx x1 w. ((0, Some unknown_command), w)),
      client_ZAdd = (\<lambda>ctx x1 x2 w. ((0, Some unknown_command), w)),
      client_ZCard = (\<lambda>ctx x1 w. ((0, Some unknown_command), w)),
      client_ZPopMin = (\<lambda>ctx x1 x2 w. (([], Some unknown_command), w)),
      client_ZScore = (\<lambda>ctx x1 x2 w. ((0, Some unknown_command), w)),
      client_ZRem = (\<lambda>ctx x1 x2 w. ((0, Some unknown_command), w)),
      client_ZRange = (\<lambda>ctx x1 x2 x3 w. (([], Some unknown_command), w)),
      client_ZRangeByScore = (\<lambda>ctx x1 x2 w. (([], Some unknown_command), w)),
      client_ZRangeByScoreWithScores = (\<lambda>ctx x1 x2 w. (([], Some unknown_command), w)),
      client_RPush = (\<lambda>ctx x1 x2 w. ((0, Some unknown_command), w)),
      client_LLen = (\<lambda>ctx x1 w. ((0, Some unknown_command), w)),
      client_LRem = (\<lambda>ctx x1 x2 x3 w. ((0, Some unknown_command), w)),
      client_LSet = (\<lambda>ctx x1 x2 x3 w. (('''', Some unknown_command), w)),
      client_LPop = (\<lambda>ctx x1 w. (('''', Some unknown_command), w)),
      client_LRange = (\<lambda>ctx x1 x2 x3 w. (([], Some unknown_command), w)),
      client_LMove = (\<lambda>ctx x1 x2 x3 x4 w. (('''', Some unknown_command), w)),
      client_SMembers = (\<lambda>ctx x1 w. (([], Some unknown_command), w)),
      client_SAdd = (\<lambda>ctx x1 x2 w. ((0, Some unknown_command), w)),
      client_Incr = (\<lambda>ctx x1 w. ((0, Some unknown_command), w)),
      client_Expire = (\<lambda>ctx x1 x2 w. ((False, Some unknown_command), w)),
      client_Close = (\<lambda>w. (Some unknown_command, w))\<rparr>"

definition exiting_logger :: "'w Logger" where
  "exiting_logger = \<lparr>Info = (\<lambda>src msg w. w), Fatal = (\<lambda>src msg w. (Exits, w))\<rparr>"

definition muted_logger :: "'w Logger" where
  "muted_logger = \<lparr>Info = (\<lambda>src msg w. w), Fatal = (\<lambda>src msg w. (Returns (), w))\<rparr>"

definition refused :: string where
  "refused = ''dial tcp 127.0.0.1:6379: connect: connection refused''"

definition live_store :: "int store" where
  "live_store = \<lparr>conn = Connected, data = Map.empty\<rparr>"

definition unreachable_store :: "int store" where
  "unreachable_store = \<lparr>conn = Unreachable refused, data = Map.empty\<rparr>"

definition two_lists :: "int store" where
  "two_lists =
     \<lparr>conn = Connected,
      data = [''A'' \<mapsto> Lst [''a'', ''b''], ''B'' \<mapsto> Lst [''c'']]\<rparr>"

definition three_members :: "(string, int) Z list" where
  "three_members =
     [\<lparr>Score = 3, Member = ''c''\<rparr>, \<lparr>Score = 1, Member = ''a''\<rparr>, \<lparr>Score = 2, Member = ''b''\<rparr>]"

definition store_cache :: "(int store, string, int) cache" where
  "store_cache = \<lparr>client = Some (store_client no_commands), log = exiting_logger, config = Some 0\<rparr>"

definition zero_Config :: Config where
  "zero_Config = \<lparr>Host = '''', Port = 0, Password = '''', DB = 0, MaxRetries = 0, PoolSize = 0\<rparr>"

definition state_of :: "int store \<Rightarrow> int store state" where
  "state_of w = \<lparr>heap = (\<lambda>a. zero_Config), world = w\<rparr>"

section \<open>Properties\<close>

subsection \<open>Each method against the client\<close>

lemma Ping_reply:
  "client c = Some cl \<Longrightarrow> client_Ping cl ctx (world st) = ((r, e), w)
   \<Longrightarrow> Ping c ctx st = (Returns (r, if e = Some redis_Nil then None else e), st\<lparr>world := w\<rparr>)"
  by (simp add: Ping_def)

lemma Ping_heap: "heap (snd (Ping c ctx st)) = heap st"
  by (simp add: Ping_def split: option.splits prod.splits)

lemma Get_reply:
  "client c = Some cl \<Longrightarrow> client_Get cl ctx key (world st) = ((r, e), w)
   \<Longrightarrow> Get c ctx key st = (Returns (r, if e = Some redis_Nil then None else e), st\<lparr>world := w\<rparr>)"
  by (simp add: Get_def)

lemma Get_heap: "heap (snd (Get c ctx key st)) = heap st"
  by (simp add: Get_def split: option.splits prod.splits)

lemma Set_reply:
  "client c = Some cl \<Longrightarrow> client_Set cl ctx key v expiration (world st) = ((r, e), w)
   \<Longrightarrow> Set c ctx key v expiration st = (Returns (r, if e = Some redis_Nil then None else e), st\<lparr>world := w\<rparr>)"
  by (simp add: Set_def)

lemma Set_heap: "heap (snd (Set c ctx key v expiration st)) = heap st"
  by (simp add: Set_def split: option.splits prod.splits)

lemma Del_reply:
  "client c = Some cl \<Longrightarrow> client_Del cl ctx keys (world st) = ((r, e), w)
   \<Longrightarrow> Del c ctx keys st = (Returns (r, if e = Some redis_Nil then None else e), st\<lparr>world := w\<rparr>)"
  by (simp add: Del_def)

lemma Del_heap: "heap (snd (Del c ctx keys st)) = heap st"
  by (simp add: Del_def split: option.splits prod.splits)

lemma ZAdd_reply:
  "client c = Some cl \<Longrightarrow> client_ZAdd cl ctx key members (world st) = ((r, e), w)
   \<Longrightarrow> ZAdd c ctx key members st = (Returns (r, if e = Some redis_Nil then None else e), st\<lparr>world := w\<rparr>)"
  by (simp add: ZAdd_def)

lemma ZAdd_heap: "heap (snd (ZAdd c ctx key members st)) = heap st"
  by (simp add: ZAdd_def split: option.splits prod.splits)

lemma ZCard_reply:
  "client c = Some cl \<Longrightarrow> client_ZCard cl ctx key (world st) = ((r, e), w)
   \<Longrightarrow> ZCard c ctx key st = (Returns (r, if e = Some redis_Nil then None else e), st\<lparr>world := w\<rparr>)"
  by (simp add: ZCard_def)

lemma ZCard_heap: "heap (snd (ZCard c ctx key st)) = heap st"
  by (simp add: ZCard_def split: option.splits prod.splits)

lemma ZPopMin_reply:
  "client c = Some cl \<Longrightarrow> client_ZPopMin cl ctx key counts (world st) = ((r, e), w)
   \<Longrightarrow> ZPopMin c ctx key counts st = (Returns (r, if e = Some redis_Nil then None else e), st\<lparr>world := w\<rparr>)"
  by (simp add: ZPopMin_def)

lemma ZPopMin_heap: "heap (snd (ZPopMin c ctx key counts st)) = heap st"
  by (simp add: ZPopMin_def split: option.splits prod.splits)

lemma ZScore_reply:
  "client c = Some cl \<Longrightarrow> client_ZScore cl ctx key member (world st) = ((r, e), w)
   \<Longrightarrow> ZScore c ctx key member st = (Returns (r, if e = Some redis_Nil then None else e), st\<lparr>world := w\<rparr>)"
  by (simp add: ZScore_def)

lemma ZScore_heap: "heap (snd (ZScore c ctx key member st)) = heap st"
  by (simp add: ZScore_def split: option.splits prod.splits)

lemma ZRem_reply:
  "client c = Some cl \<Longrightarrow> client_ZRem cl ctx key member (world st) = ((r, e), w)
   \<Longrightarrow> ZRem c ctx key member st = (Returns (r, if e = Some redis_Nil then None else e), st\<lparr>world := w\<rparr>)"
  by (simp add: ZRem_def)

lemma ZRem_heap: "heap (snd (ZRem c ctx key member st)) = heap st"
  by (simp add: ZRem_def split: option.splits prod.splits)

lemma ZRange_reply:
  "client c = Some cl \<Longrightarrow> client_ZRange cl ctx key start stop (world st) = ((r, e), w)
   \<Longrightarrow> ZRange c ctx key start stop st = (Returns (r, if e = Some redis_Nil then None else e), st\<lparr>world := w\<rparr>)"
  by (simp add: ZRange_def)

lemma ZRange_heap: "heap (snd (ZRange c ctx key start stop st)) = heap st"
  by (simp add: ZRange_def split: option.splits prod.splits)

lemma ZRangeByScore_reply:
  "client c = Some cl \<Longrightarrow> client_ZRangeByScore cl ctx key \<lparr>by_Min = mn, by_Max = mx, by_Offset = offset, by_Count = count\<rparr> (world st) = ((r, e), w)
   \<Longrightarrow> ZRangeByScore c ctx key mn mx offset count st = (Returns (r, if e = Some redis_Nil then None else e), st\<lparr>world := w\<rparr>)"
  by (simp add: ZRangeByScore_def)

lemma ZRangeByScore_heap: "heap (snd (ZRangeByScore c ctx key mn mx offset count st)) = heap st"
  by (simp add: ZRangeByScore_def split: option.splits prod.splits)

lemma ZRangeByScoreWithScores_reply:
  "client c = Some cl \<Longrightarrow> client_ZRangeByScoreWithScores cl ctx key \<lparr>by_Min = mn, by_Max = mx, by_Offset = offset, by_Count = count\<rparr> (world st) = ((r, e), w)
   \<Longrightarrow> ZRangeByScoreWithScores c ctx key mn mx offset count st = (Returns (r, if e = Some redis_Nil then None else e), st\<lparr>world := w\<rparr>)"
  by (simp add: ZRangeByScoreWithScores_def)

lemma ZRangeByScoreWithScores_heap: "heap (snd (ZRangeByScoreWithScores c ctx key mn mx offset count st)) = heap st"
  by (simp add: ZRangeByScoreWithScores_def split: option.splits prod.splits)

lemma RPush_reply:
  "client c = Some cl \<Longrightarrow> client_RPush cl ctx key vals (world st) = ((r, e), w)
   \<Longrightarrow> RPush c ctx key vals st = (Returns (r, if e = Some redis_Nil then None else e), st\<lparr>world := w\<rparr>)"
  by (simp add: RPush_def)

lemma RPush_heap: "heap (snd (RPush c ctx key vals st)) = heap st"
  by (simp add: RPush_def split: option.splits prod.splits)

lemma LLen_reply:
  "client c = Some cl \<Longrightarrow> client_LLen cl ctx key (world st) = ((r, e), w)
   \<Longrightarrow> LLen c ctx key st = (Returns (r, if e = Some redis_Nil then None else e), st\<lparr>world := w\<rparr>)"
  by (simp add: LLen_def)

lemma LLen_heap: "heap (snd (LLen c ctx key st)) = heap st"
  by (simp add: LLen_def split: option.splits prod.splits)

lemma LRem_reply:
  "client c = Some cl \<Longrightarrow> client_LRem cl ctx key count v (world st) = ((r, e), w)
   \<Longrightarrow> LRem c ctx key count v st = (Returns (r, if e = Some redis_Nil then None else e), st\<lparr>world := w\<rparr>)"
  by (simp add: LRem_def)

lemma LRem_heap: "heap (snd (LRem c ctx key count v st)) = heap st"
  by (simp add: LRem_def split: option.splits prod.splits)

lemma LSet_reply:
  "client c = Some cl \<Longrightarrow> client_LSet cl ctx key index v (world st) = ((r, e), w)
   \<Longrightarrow> LSet c ctx key index v st = (Returns (r, if e = Some redis_Nil then None else e), st\<lparr>world := w\<rparr>)"
  by (simp add: LSet_def)

lemma LSet_heap: "heap (snd (LSet c ctx key index v st)) = heap st"
  by (simp add: LSet_def split: option.splits prod.splits)

lemma LPop_reply:
  "client c = Some cl \<Longrightarrow> client_LPop cl ctx key (world st) = ((r, e), w)
   \<Longrightarrow> LPop c ctx key st = (Returns (r, if e = Some redis_Nil then None else e), st\<lparr>world := w\<rparr>)"
  by (simp add: LPop_def)

lemma LPop_heap: "heap (snd (LPop c ctx key st)) = heap st"
  by (simp add: LPop_def split: option.splits prod.splits)

lemma LRange_reply:
  "client c = Some cl \<Longrightarrow> client_LRange cl ctx key start stop (world st) = ((r, e), w)
   \<Longrightarrow> LRange c ctx key start stop st = (Returns (r, if e = Some redis_Nil then None else e), st\<lparr>world := w\<rparr>)"
  by (simp add: LRange_def)

lemma LRange_heap: "heap (snd (LRange c ctx key start stop st)) = heap st"
  by (simp add: LRange_def split: option.splits prod.splits)

lemma LMove_reply:
  "client c = Some cl \<Longrightarrow> client_LMove cl ctx source destination srcpos destpos (world st) = ((r, e), w)
   \<Longrightarrow> LMove c ctx source destination srcpos destpos st = (Returns (r, if e = Some redis_Nil then None else e), st\<lparr>world := w\<rparr>)"
  by (simp add: LMove_def)

lemma LMove_heap: "heap (snd (LMove c ctx source destination srcpos destpos st)) = heap st"
  by (simp add: LMove_def split: option.splits prod.splits)

lemma SMembers_reply:
  "client c = Some cl \<Longrightarrow> client_SMembers cl ctx key (world st) = ((r, e), w)
   \<Longrightarrow> SMembers c ctx key st = (Returns (r, if e = Some redis_Nil then None else e), st\<lparr>world := w\<rparr>)"
  by (simp add: SMembers_def)

lemma SMembers_heap: "heap (snd (SMembers c ctx key st)) = heap st"
  by (simp add: SMembers_def split: option.splits prod.splits)

lemma SAdd_reply:
  "client c = Some cl \<Longrightarrow> client_SAdd cl ctx key vals (world st) = ((r, e), w)
   \<Longrightarrow> SAdd c ctx key vals st = (Returns (r, if e = Some redis_Nil then None else e), st\<lparr>world := w\<rparr>)"
  by (simp add: SAdd_def)

lemma SAdd_heap: "heap (snd (SAdd c ctx key vals st)) = heap st"
  by (simp add: SAdd_def split: option.splits prod.splits)

lemma Incr_reply:
  "client c = Some cl \<Longrightarrow> client_Incr cl ctx key (world st) = ((r, e), w)
   \<Longrightarrow> Incr c ctx key st = (Returns (r, if e = Some redis_Nil then None else e), st\<lparr>world := w\<rparr>)"
  by (simp add: Incr_def)

lemma Incr_heap: "heap (snd (Incr c ctx key st)) = heap st"
  by (simp add: Incr_def split: option.splits prod.splits)

lemma Expire_reply:
  "client c = Some cl \<Longrightarrow> client_Expire cl ctx key expiration (world st) = ((r, e), w)
   \<Longrightarrow> Expire c ctx key expiration st = (Returns (r, if e = Some redis_Nil then None else e), st\<lparr>world := w\<rparr>)"
  by (simp add: Expire_def)

lemma Expire_heap: "heap (snd (Expire c ctx key expiration st)) = heap st"
  by (simp add: Expire_def split: option.splits prod.splits)

lemma Close_heap: "heap (snd (Close c st)) = heap st"
  by (simp add: Close_def split: option.splits prod.splits)

subsection \<open>Construction, step by step\<close>

lemma defaults_heap:
  "config c = Some a \<Longrightarrow> defaults c h = (Returns (), h(a := resolved (h a)))"
  by (auto simp: defaults_def resolved_def Let_def fun_eq_iff)

lemma defaults_nil: "config c = None \<Longrightarrow> defaults c h = (Panics, h)"
  by (simp add: defaults_def)

lemma NewCache_nil: "NewCache N None lg st = (Panics, st)"
  by (simp add: NewCache_def defaults_nil)

lemma NewCache_ping_ok:
  assumes "client_Ping (N (options a ((heap st)(a := resolved (heap st a))) lg)) Background (world st)
      = ((r, None), w)"
  shows "NewCache N (Some a) lg st =
    (Returns (\<lparr>client = Some (N (options a ((heap st)(a := resolved (heap st a))) lg)),
               log = lg, config = Some a\<rparr>, None),
     \<lparr>heap = (heap st)(a := resolved (heap st a)), world = w\<rparr>)"
  using assms by (simp add: NewCache_def defaults_heap)

lemma NewCache_ping_fails:
  assumes "client_Ping (N (options a ((heap st)(a := resolved (heap st a))) lg)) Background (world st)
      = ((r, Some e), w)"
    and "Fatal lg ''redis'' (''Could not ping redis '' @ Error e) w = (out, w')"
  shows "NewCache N (Some a) lg st =
    ((case out of
        Returns _ \<Rightarrow>
          Returns (\<lparr>client = Some (N (options a ((heap st)(a := resolved (heap st a))) lg)),
                    log = lg, config = Some a\<rparr>, None)
      | Panics \<Rightarrow> Panics
      | Exits \<Rightarrow> Exits),
     \<lparr>heap = (heap st)(a := resolved (heap st a)), world = w'\<rparr>)"
  using assms by (cases out) (simp_all add: NewCache_def defaults_heap)

lemma NewCache_cases:
  obtains (nil) "conf = None"
  | (ok) a r w where "conf = Some a"
      "client_Ping (N (options a ((heap st)(a := resolved (heap st a))) lg)) Background (world st)
         = ((r, None), w)"
  | (fails) a r e w out w' where "conf = Some a"
      "client_Ping (N (options a ((heap st)(a := resolved (heap st a))) lg)) Background (world st)
         = ((r, Some e), w)"
      "Fatal lg ''redis'' (''Could not ping redis '' @ Error e) w = (out, w')"
proof (cases conf)
  case None
  then show ?thesis using nil by blast
next
  case (Some a)
  obtain r e w where p:
    "client_Ping (N (options a ((heap st)(a := resolved (heap st a))) lg)) Background (world st)
       = ((r, e), w)"
    by (metis prod.exhaust)
  show ?thesis
  proof (cases e)
    case None
    with Some p ok show ?thesis by blast
  next
    case (Some e')
    obtain out w' where "Fatal lg ''redis'' (''Could not ping redis '' @ Error e') w = (out, w')"
      by (metis prod.exhaust)
    with \<open>conf = Some a\<close> Some p fails show ?thesis by blast
  qed
qed

subsection \<open>The store at work\<close>

lemma store_client_fields:
  "client_Ping (store_client rest) = store_Ping"
  "client_Get (store_client rest) = store_Get"
  "client_Set (store_client rest) = store_Set"
  "client_ZAdd (store_client rest) = store_ZAdd"
  "client_ZPopMin (store_client rest) ctx key [] = store_ZPopMin ctx key []"
  "client_ZRange (store_client rest) = store_ZRange"
  "client_RPush (store_client rest) = store_RPush"
  "client_LRange (store_client rest) = store_LRange"
  "client_LMove (store_client rest) = store_LMove"
  "client_Close (store_client rest) = store_Close"
  by (simp_all add: store_client_def)

lemma slice_whole: "slice 0 (- 1) xs = xs"
  by (simp add: slice_def Let_def)

lemma side_of_LEFT: "side_of ''LEFT'' = Some Left"
  by (simp add: side_of_def to_upper_def)

lemma side_of_RIGHT: "side_of ''RIGHT'' = Some Right"
  by (simp add: side_of_def to_upper_def)

lemma LRange_shows:
  assumes "client c = Some (store_client rest)"
    and "fst (LRange c ctx key 0 (- 1) st) = Returns (xs, None)"
  shows "conn (world st) = Connected
    \<and> (data (world st) key = Some (Lst xs) \<or> data (world st) key = None \<and> xs = [])"
proof (cases "conn (world st)")
  case Connected
  with assms show ?thesis
    by (cases "data (world st) key")
       (auto simp: LRange_def store_client_fields store_LRange_def answer_def slice_whole
          WRONGTYPE_def redis_Nil_def split: entry.splits if_splits)
next
  case (Unreachable e)
  with assms show ?thesis
    by (auto simp: LRange_def store_client_fields store_LRange_def answer_def redis_Nil_def
        split: if_splits)
next
  case Closed
  with assms show ?thesis
    by (auto simp: LRange_def store_client_fields store_LRange_def answer_def ErrClosed_def
        redis_Nil_def split: if_splits)
qed

lemma before_trans: "before x y \<Longrightarrow> before y z \<Longrightarrow> before x z"
  by (auto simp: before_def)

lemma before_total: "Member y \<noteq> Member z \<Longrightarrow> before y z \<or> before z y"
  by (auto simp: before_def)

lemma before_irrefl: "\<not> before z z"
  by (simp add: before_def)

lemma set_zinsert: "set (zinsert z zs) = insert z (set zs)"
  by (induction zs) auto

lemma sorted_zinsert:
  "sorted_wrt before zs \<Longrightarrow> \<forall>y \<in> set zs. Member y \<noteq> Member z
    \<Longrightarrow> sorted_wrt before (zinsert z zs)"
proof (induction zs)
  case Nil
  then show ?case by simp
next
  case (Cons y ys)
  show ?case
  proof (cases "before z y")
    case True
    with Cons.prems show ?thesis
      by (auto intro: before_trans)
  next
    case False
    with Cons.prems before_total [of y z] have "before y z"
      by auto
    with False Cons show ?thesis
      by (auto simp: set_zinsert)
  qed
qed

lemma set_zadd1: "set (zadd1 z zs) = insert z {y \<in> set zs. Member y \<noteq> Member z}"
  by (auto simp: zadd1_def set_zinsert)

lemma sorted_zadd1: "sorted_wrt before zs \<Longrightarrow> sorted_wrt before (zadd1 z zs)"
  by (simp add: zadd1_def sorted_zinsert sorted_wrt_filter)

lemma fold_zadd1:
  "sorted_wrt before acc \<Longrightarrow> distinct (map Member zs)
    \<Longrightarrow> sorted_wrt before (fold zadd1 zs acc)
      \<and> set (fold zadd1 zs acc) = set zs \<union> {y \<in> set acc. Member y \<notin> Member ` set zs}"
proof (induction zs arbitrary: acc)
  case Nil
  then show ?case by simp
next
  case (Cons z zs)
  from Cons.prems have "sorted_wrt before (zadd1 z acc)" and "distinct (map Member zs)"
    by (simp_all add: sorted_zadd1)
  from Cons.IH [OF this] Cons.prems(2) show ?case
    by (auto simp: set_zadd1)
qed

lemma sorted_before_distinct: "sorted_wrt before zs \<Longrightarrow> distinct zs"
  by (induction zs) (auto simp: before_irrefl)

lemma sorted_before_scores: "sorted_wrt before zs \<Longrightarrow> sorted (map Score zs)"
  by (induction zs) (auto simp: before_def)

lemma zadd_all_sorts:
  assumes "distinct (map Score zs)" and "distinct (map Member zs)"
  shows "fold zadd1 zs [] = sort_key Score zs"
proof -
  let ?xs = "fold zadd1 zs []"
  from fold_zadd1 [of "[]" zs] assms(2)
  have s: "sorted_wrt before ?xs" and e: "set ?xs = set zs"
    by simp_all
  from assms(1) have inj: "inj_on Score (set zs)"
    by (simp add: distinct_map)
  have "distinct (map Score ?xs)"
    using sorted_before_distinct [OF s] inj e by (simp add: distinct_map)
  moreover have "distinct (map Score (sort_key Score zs))"
    using assms(1) inj by (simp add: distinct_map)
  moreover have "set (map Score ?xs) = set (map Score (sort_key Score zs))"
    using e by simp
  ultimately have "map Score ?xs = map Score (sort_key Score zs)"
    using sorted_before_scores [OF s] by (intro sorted_distinct_set_unique) simp_all
  moreover have "inj_on Score (set ?xs \<union> set (sort_key Score zs))"
    using inj e by simp
  ultimately show ?thesis
    by (simp add: inj_on_map_eq_map)
qed

lemma distinct_nth_not_in_drop:
  assumes "distinct xs" and "i \<le> j" and "j < length xs"
  shows "xs ! i \<notin> set (drop (Suc j) xs)"
proof -
  from assms(1) have "distinct (take (Suc j) xs @ drop (Suc j) xs)"
    by simp
  then have "set (take (Suc j) xs) \<inter> set (drop (Suc j) xs) = {}"
    by (simp only: distinct_append)
  moreover have "xs ! i \<in> set (take (Suc j) xs)"
    using assms(2,3) by (auto simp: in_set_conv_nth intro!: exI [of _ i])
  ultimately show ?thesis
    by blast
qed

lemma pop_each_store:
  assumes "client c = Some (store_client rest)"
  shows "conn (world st) = Connected
    \<Longrightarrow> data (world st) key = (if zs = [] then None else Some (ZSet zs))
    \<Longrightarrow> fst (pop_each c ctx key (length zs) st) = pops_of zs"
proof (induction zs arbitrary: st)
  case Nil
  then show ?case by simp
next
  case (Cons z zs)
  let ?st1 = "snd (ZPopMin c ctx key [] st)"
  have 1: "fst (ZPopMin c ctx key [] st) = Returns ([z], None)"
    and 2: "conn (world ?st1) = Connected"
    and 3: "data (world ?st1) key = (if zs = [] then None else Some (ZSet zs))"
    using assms Cons.prems
    by (simp_all add: ZPopMin_def store_client_fields store_ZPopMin_def answer_def)
  have 4: "ZRange c ctx key 0 (- 1) ?st1 = (Returns (map Member zs, None), ?st1)"
    using assms 2 3
    by (simp add: ZRange_def store_client_fields store_ZRange_def answer_def slice_whole)
  from Cons.IH [OF 2 3] have 5: "fst (pop_each c ctx key (length zs) ?st1) = pops_of zs" .
  show ?case
    using 1 4 5 by (simp add: split_beta)
qed

lemma store_cache_client: "client store_cache = Some (store_client no_commands)"
  by (simp add: store_cache_def)

lemma Ping_unreachable:
  "client_Ping (store_client no_commands) ctx unreachable_store
     = (('''', Some (OtherError refused)), unreachable_store)"
  by (simp add: store_client_fields store_Ping_def answer_def unreachable_store_def)

lemma Ping_live:
  "client_Ping (store_client no_commands) ctx live_store = ((''PONG'', None), live_store)"
  by (simp add: store_client_fields store_Ping_def answer_def live_store_def)

subsection \<open>Absence is not an error\<close>

text \<open>
  C1. Whatever the arguments, each of the 23 operations returns the client's response
  with a \<^verbatim>\<open>nil\<close> error when the client reported the absent sentinel
  \<^verbatim>\<open>redis.Nil\<close>, and returns the response with the client's error, unchanged, when the
  client reported any other error (a \<^verbatim>\<open>nil\<close> error stays \<^verbatim>\<open>nil\<close>).
\<close>

theorem absent_sentinel_normalized:
  assumes "client c = Some cl"
  shows "passes (client_Ping cl ctx (world st)) st (Ping c ctx st)
    \<and> passes (client_Get cl ctx key (world st)) st (Get c ctx key st)
    \<and> passes (client_Set cl ctx key v expiration (world st)) st (Set c ctx key v expiration st)
    \<and> passes (client_Del cl ctx keys (world st)) st (Del c ctx keys st)
    \<and> passes (client_ZAdd cl ctx key members (world st)) st (ZAdd c ctx key members st)
    \<and> passes (client_ZCard cl ctx key (world st)) st (ZCard c ctx key st)
    \<and> passes (client_ZPopMin cl ctx key counts (world st)) st (ZPopMin c ctx key counts st)
    \<and> passes (client_ZScore cl ctx key member (world st)) st (ZScore c ctx key member st)
    \<and> passes (client_ZRem cl ctx key member (world st)) st (ZRem c ctx key member st)
    \<and> passes (client_ZRange cl ctx key start stop (world st)) st (ZRange c ctx key start stop st)
    \<and> passes (client_ZRangeByScore cl ctx key \<lparr>by_Min = mn, by_Max = mx, by_Offset = offset, by_Count = count\<rparr> (world st)) st (ZRangeByScore c ctx key mn mx offset count st)
    \<and> passes (client_ZRangeByScoreWithScores cl ctx key \<lparr>by_Min = mn, by_Max = mx, by_Offset = offset, by_Count = count\<rparr> (world st)) st (ZRangeByScoreWithScores c ctx key mn mx offset count st)
    \<and> passes (client_RPush cl ctx key vals (world st)) st (RPush c ctx key vals st)
    \<and> passes (client_LLen cl ctx key (world st)) st (LLen c ctx key st)
    \<and> passes (client_LRem cl ctx key count v (world st)) st (LRem c ctx key count v st)
    \<and> passes (client_LSet cl ctx key index v (world st)) st (LSet c ctx key index v st)
    \<and> passes (client_LPop cl ctx key (world st)) st (LPop c ctx key st)
    \<and> passes (client_LRange cl ctx key start stop (world st)) st (LRange c ctx key start stop st)
    \<and> passes (client_LMove cl ctx source destination srcpos destpos (world st)) st (LMove c ctx source destination srcpos destpos st)
    \<and> passes (client_SMembers cl ctx key (world st)) st (SMembers c ctx key st)
    \<and> passes (client_SAdd cl ctx key vals (world st)) st (SAdd c ctx key vals st)
    \<and> passes (client_Incr cl ctx key (world st)) st (Incr c ctx key st)
    \<and> passes (client_Expire cl ctx key expiration (world st)) st (Expire c ctx key expiration st)"
  using assms
  by (intro conjI;
      simp add: passes_def split: prod.splits;
      simp add: Ping_reply Get_reply Set_reply Del_reply ZAdd_reply ZCard_reply ZPopMin_reply ZScore_reply ZRem_reply ZRange_reply ZRangeByScore_reply ZRangeByScoreWithScores_reply RPush_reply LLen_reply LRem_reply LSet_reply LPop_reply LRange_reply LMove_reply SMembers_reply SAdd_reply Incr_reply Expire_reply)

text \<open>
  The store at a key it does not hold answers the sentinel, and \<open>Get\<close> returns the
  empty string with \<^verbatim>\<open>nil\<close>; a client that cannot reach the store answers its dial
  error, and \<open>Get\<close> returns that error.
\<close>

theorem absent_sentinel_normalized_witness:
  "client store_cache = Some (store_client no_commands)
   \<and> client_Get (store_client no_commands) Background ''missing'' (world (state_of live_store))
       = (('''', Some redis_Nil), live_store)
   \<and> Get store_cache Background ''missing'' (state_of live_store)
       = (Returns ('''', None), state_of live_store)
   \<and> client_Get (store_client no_commands) Background ''missing'' (world (state_of unreachable_store))
       = (('''', Some (OtherError refused)), unreachable_store)
   \<and> Get store_cache Background ''missing'' (state_of unreachable_store)
       = (Returns ('''', Some (OtherError refused)), state_of unreachable_store)"
proof -
  have 1: "client_Get (store_client no_commands) Background ''missing'' (world (state_of live_store))
       = (('''', Some redis_Nil), live_store)"
    by (simp add: store_client_fields store_Get_def answer_def live_store_def state_of_def)
  have 2: "client_Get (store_client no_commands) Background ''missing''
         (world (state_of unreachable_store))
       = (('''', Some (OtherError refused)), unreachable_store)"
    by (simp add: store_client_fields store_Get_def answer_def unreachable_store_def state_of_def)
  have 3: "passes (client_Get (store_client no_commands) Background ''missing''
        (world (state_of live_store)))
      (state_of live_store) (Get store_cache Background ''missing'' (state_of live_store))"
    using absent_sentinel_normalized [OF store_cache_client,
        where ctx = Background and key = "''missing''" and st = "state_of live_store"]
    by blast
  have 4: "passes (client_Get (store_client no_commands) Background ''missing''
        (world (state_of unreachable_store)))
      (state_of unreachable_store)
      (Get store_cache Background ''missing'' (state_of unreachable_store))"
    using absent_sentinel_normalized [OF store_cache_client,
        where ctx = Background and key = "''missing''" and st = "state_of unreachable_store"]
    by blast
  have 5: "Get store_cache Background ''missing'' (state_of live_store)
       = (Returns ('''', None), state_of live_store)"
    using 3 unfolding 1 by (simp add: passes_def state_of_def)
  have 6: "Get store_cache Background ''missing'' (state_of unreachable_store)
       = (Returns ('''', Some (OtherError refused)), state_of unreachable_store)"
    using 4 unfolding 2 by (simp add: passes_def state_of_def redis_Nil_def)
  from store_cache_client 1 2 5 6 show ?thesis by blast
qed

subsection \<open>Construction\<close>




text \<open>
  C3. \<open>defaults\<close> returns, and behind the facade's pointer it leaves the host
  \<^verbatim>\<open>127.0.0.1\<close> for an empty host, the port 6379 for a zero port, 3 retries for zero
  retries, a pool of 10 for a zero pool size, and every field that was not zero (and the
  password and the database index in any case) as it was. From an all-zero configuration
  that is \<^verbatim>\<open>{127.0.0.1, 6379, database 0, 3 retries, pool 10}\<close>.
\<close>

theorem defaults_resolves:
  assumes "config c = Some a"
  shows "fst (defaults c h) = Returns ()
    \<and> Host (snd (defaults c h) a) = (if Host (h a) = [] then ''127.0.0.1'' else Host (h a))
    \<and> Port (snd (defaults c h) a) = (if Port (h a) = 0 then 6379 else Port (h a))
    \<and> Password (snd (defaults c h) a) = Password (h a)
    \<and> DB (snd (defaults c h) a) = (if DB (h a) = 0 then 0 else DB (h a))
    \<and> MaxRetries (snd (defaults c h) a) = (if MaxRetries (h a) = 0 then 3 else MaxRetries (h a))
    \<and> PoolSize (snd (defaults c h) a) = (if PoolSize (h a) = 0 then 10 else PoolSize (h a))
    \<and> (h a = \<lparr>Host = [], Port = 0, Password = pw, DB = 0, MaxRetries = 0, PoolSize = 0\<rparr> \<longrightarrow>
         snd (defaults c h) a =
           \<lparr>Host = ''127.0.0.1'', Port = 6379, Password = pw, DB = 0, MaxRetries = 3, PoolSize = 10\<rparr>)"
  using assms by (simp add: defaults_heap resolved_def)

theorem defaults_resolves_witness:
  "config store_cache = Some 0
   \<and> fst (defaults store_cache (\<lambda>a. zero_Config)) = Returns ()
   \<and> snd (defaults store_cache (\<lambda>a. zero_Config)) 0 =
       \<lparr>Host = ''127.0.0.1'', Port = 6379, Password = [], DB = 0, MaxRetries = 3, PoolSize = 10\<rparr>"
  using defaults_resolves [of store_cache 0 "\<lambda>a. zero_Config" "[]"]
  by (simp add: store_cache_def zero_Config_def)

text \<open>
  C9. \<open>NewCache\<close> called with a pointer \<open>a\<close> leaves the resolved configuration in the
  caller's own \<open>Config\<close> at \<open>a\<close> (and no other \<open>Config\<close> changed), and the facade it
  returns, after a ping that succeeded or after one that failed, holds that same
  pointer \<open>a\<close>, not a copy.
\<close>

theorem NewCache_writes_through:
  "heap (snd (NewCache N (Some a) lg st)) = (heap st)(a := resolved (heap st a))
   \<and> (\<forall>c err. fst (NewCache N (Some a) lg st) = Returns (c, err) \<longrightarrow> config c = Some a)"
proof (cases rule: NewCache_cases [where conf = "Some a" and N = N and st = st and lg = lg])
  case nil
  then show ?thesis by simp
next
  case (ok a' r w)
  then show ?thesis by (simp add: NewCache_ping_ok)
next
  case (fails a' r e w out w')
  from fails
    NewCache_ping_fails [where N = N and a = a' and st = st and lg = lg and r = r
      and e = e and w = w and out = out and w' = w']
  show ?thesis
    by (cases out) simp_all
qed

theorem NewCache_writes_through_witness:
  "heap (snd (NewCache (\<lambda>opts. store_client no_commands) (Some 0) exiting_logger
            (state_of live_store))) 0
     = \<lparr>Host = ''127.0.0.1'', Port = 6379, Password = [], DB = 0, MaxRetries = 3, PoolSize = 10\<rparr>
   \<and> fst (NewCache (\<lambda>opts. store_client no_commands) (Some 0) exiting_logger (state_of live_store))
     = Returns (store_cache, None)
   \<and> config store_cache = Some 0"
proof -
  have 1: "client_Ping (store_client no_commands) Background (world (state_of live_store))
     = ((''PONG'', None), live_store)"
    by (simp add: Ping_live state_of_def)
  from NewCache_ping_ok [where N = "\<lambda>opts. store_client no_commands" and a = 0
      and st = "state_of live_store" and lg = exiting_logger, OF 1]
    NewCache_writes_through [where N = "\<lambda>opts. store_client no_commands" and a = 0
      and st = "state_of live_store" and lg = exiting_logger]
  show ?thesis
    by (simp add: store_cache_def state_of_def resolved_def zero_Config_def)
qed

text \<open>
  C10. Whatever the configuration pointer, the logger, the client library and the
  state, if \<open>NewCache\<close> returns then the error it returns is \<^verbatim>\<open>nil\<close>: after a ping
  that succeeded, and after a failed ping whose Fatal event came back.
\<close>

theorem NewCache_error_nil:
  assumes "fst (NewCache N conf lg st) = Returns (c, err)"
  shows "err = None"
proof (cases rule: NewCache_cases [where conf = conf and N = N and st = st and lg = lg])
  case nil
  with assms show ?thesis by (simp add: NewCache_nil)
next
  case (ok a r w)
  with assms show ?thesis by (simp add: NewCache_ping_ok)
next
  case (fails a r e w out w')
  from assms fails
    NewCache_ping_fails [where N = N and a = a and st = st and lg = lg and r = r
      and e = e and w = w and out = out and w' = w']
  show ?thesis
    by (cases out) simp_all
qed

text \<open>
  A failed ping and a logger that drops fatal events: \<open>NewCache\<close> returns, and the
  error it returns is \<^verbatim>\<open>nil\<close>.
\<close>

theorem NewCache_error_nil_witness:
  "(case fst (NewCache (\<lambda>opts. store_client no_commands) (Some 0) muted_logger
                (state_of unreachable_store)) of
      Returns (c, err) \<Rightarrow> err = None
    | Panics \<Rightarrow> False
    | Exits \<Rightarrow> False)"
proof -
  have 1: "client_Ping (store_client no_commands) Background (world (state_of unreachable_store))
     = (('''', Some (OtherError refused)), unreachable_store)"
    by (simp add: Ping_unreachable state_of_def)
  have 2: "Fatal muted_logger ''redis''
      (''Could not ping redis '' @ Error (OtherError refused)) unreachable_store
     = (Returns (), unreachable_store)"
    by (simp add: muted_logger_def)
  from NewCache_ping_fails [where N = "\<lambda>opts. store_client no_commands" and a = 0
      and st = "state_of unreachable_store" and lg = muted_logger, OF 1 2]
  obtain c err where r:
    "fst (NewCache (\<lambda>opts. store_client no_commands) (Some 0) muted_logger
            (state_of unreachable_store)) = Returns (c, err)"
    by simp
  from NewCache_error_nil [OF r] r show ?thesis
    by simp
qed

subsection \<open>The configuration after construction\<close>

text \<open>
  C7. No operation, \<open>Close\<close> included, writes the heap of configurations: the
  \<open>Config\<close> behind the facade's \<open>config\<close> pointer has the same six fields after the call
  as before it. (A method receives the facade and returns no changed one.)
\<close>

theorem operations_keep_config:
  "heap (snd (Ping c ctx st)) = heap st
   \<and> heap (snd (Get c ctx key st)) = heap st
   \<and> heap (snd (Set c ctx key v expiration st)) = heap st
   \<and> heap (snd (Del c ctx keys st)) = heap st
   \<and> heap (snd (ZAdd c ctx key members st)) = heap st
   \<and> heap (snd (ZCard c ctx key st)) = heap st
   \<and> heap (snd (ZPopMin c ctx key counts st)) = heap st
   \<and> heap (snd (ZScore c ctx key member st)) = heap st
   \<and> heap (snd (ZRem c ctx key member st)) = heap st
   \<and> heap (snd (ZRange c ctx key start stop st)) = heap st
   \<and> heap (snd (ZRangeByScore c ctx key mn mx offset count st)) = heap st
   \<and> heap (snd (ZRangeByScoreWithScores c ctx key mn mx offset count st)) = heap st
   \<and> heap (snd (RPush c ctx key vals st)) = heap st
   \<and> heap (snd (LLen c ctx key st)) = heap st
   \<and> heap (snd (LRem c ctx key count v st)) = heap st
   \<and> heap (snd (LSet c ctx key index v st)) = heap st
   \<and> heap (snd (LPop c ctx key st)) = heap st
   \<and> heap (snd (LRange c ctx key start stop st)) = heap st
   \<and> heap (snd (LMove c ctx source destination srcpos destpos st)) = heap st
   \<and> heap (snd (SMembers c ctx key st)) = heap st
   \<and> heap (snd (SAdd c ctx key vals st)) = heap st
   \<and> heap (snd (Incr c ctx key st)) = heap st
   \<and> heap (snd (Expire c ctx key expiration st)) = heap st
   \<and> heap (snd (Close c st)) = heap st"
  by (intro conjI) (simp_all only: Ping_heap Get_heap Set_heap Del_heap ZAdd_heap ZCard_heap ZPopMin_heap ZScore_heap ZRem_heap ZRange_heap ZRangeByScore_heap ZRangeByScoreWithScores_heap RPush_heap LLen_heap LRem_heap LSet_heap LPop_heap LRange_heap LMove_heap SMembers_heap SAdd_heap Incr_heap Expire_heap Close_heap)

text \<open>
  After \<open>Set\<close> and after \<open>Close\<close> the configuration at the facade's pointer is the
  one that was there.
\<close>

theorem operations_keep_config_witness:
  "heap (snd (Set store_cache Background ''k'' ''v'' 0 (state_of live_store))) 0 = zero_Config
   \<and> heap (snd (Close store_cache (state_of live_store))) 0 = zero_Config"
  using operations_keep_config [where c = store_cache and ctx = Background
      and st = "state_of live_store" and key = "''k''" and v = "''v''" and expiration = 0]
  by (simp add: state_of_def)

subsection \<open>The facade over the store\<close>



text \<open>
  C5. On a facade connected to the store, a new key populated by \<open>ZAdd\<close> with
  members of pairwise-distinct scores (the members themselves pairwise distinct, as the
  members of a set are) and then popped with \<open>ZPopMin\<close> and no count, once for each
  member: the calls return the members one at a time in ascending order of score, each
  with a \<^verbatim>\<open>nil\<close> error, and the \<open>ZRange\<close> over the whole key after each call holds
  exactly the members not yet popped, so that no member popped by then is in it.
\<close>

theorem ZPopMin_ascending:
  assumes "client c = Some (store_client rest)"
    and "conn (world st) = Connected" and "data (world st) key = None"
    and "distinct (map Score zs)" and "distinct (map Member zs)"
  shows "fst (pop_each c ctx key (length zs) (snd (ZAdd c ctx key zs st)))
      = pops_of (sort_key Score zs)
    \<and> (\<forall>i j. i \<le> j \<and> j < length zs \<longrightarrow>
          Member (sort_key Score zs ! i) \<notin> set (map Member (drop (Suc j) (sort_key Score zs))))"
proof -
  let ?st1 = "snd (ZAdd c ctx key zs st)"
  have 1: "conn (world ?st1) = Connected"
    using assms(1,2,3)
    by (simp add: ZAdd_def store_client_fields store_ZAdd_def answer_def Let_def)
  have e: "(sort_key Score zs = []) = (zs = [])"
    by (metis length_0_conv length_sort)
  have 2: "data (world ?st1) key
      = (if sort_key Score zs = [] then None else Some (ZSet (sort_key Score zs)))"
    using assms(1,2,3) zadd_all_sorts [OF assms(4,5)] e
    by (simp add: ZAdd_def store_client_fields store_ZAdd_def answer_def Let_def)
  from pop_each_store [OF assms(1) 1 2]
  have pops: "fst (pop_each c ctx key (length zs) ?st1) = pops_of (sort_key Score zs)"
    by simp
  have d: "distinct (map Member (sort_key Score zs))"
    using assms(5) by (simp add: distinct_map)
  have gone: "Member (sort_key Score zs ! i) \<notin> set (map Member (drop (Suc j) (sort_key Score zs)))"
    if "i \<le> j" "j < length zs" for i j
    using distinct_nth_not_in_drop [OF d, of i j] that by (simp add: drop_map)
  from pops gone show ?thesis by blast
qed

theorem ZPopMin_ascending_witness:
  "client store_cache = Some (store_client no_commands)
   \<and> conn (world (state_of live_store)) = Connected
   \<and> data (world (state_of live_store)) ''z'' = None
   \<and> distinct (map Score three_members) \<and> distinct (map Member three_members)
   \<and> fst (pop_each store_cache Background ''z'' (length three_members)
            (snd (ZAdd store_cache Background ''z'' three_members (state_of live_store))))
     = [(Returns ([\<lparr>Score = 1, Member = ''a''\<rparr>], None), Returns ([''b'', ''c''], None)),
        (Returns ([\<lparr>Score = 2, Member = ''b''\<rparr>], None), Returns ([''c''], None)),
        (Returns ([\<lparr>Score = 3, Member = ''c''\<rparr>], None), Returns ([], None))]"
proof -
  have 1: "conn (world (state_of live_store)) = Connected"
    by (simp add: state_of_def live_store_def)
  have 2: "data (world (state_of live_store)) ''z'' = None"
    by (simp add: state_of_def live_store_def)
  have 3: "distinct (map Score three_members)"
    by (simp add: three_members_def)
  have 4: "distinct (map Member three_members)"
    by (simp add: three_members_def)
  have 5: "pops_of (sort_key Score three_members)
     = [(Returns ([\<lparr>Score = 1, Member = ''a''\<rparr>], None), Returns ([''b'', ''c''], None)),
        (Returns ([\<lparr>Score = 2, Member = ''b''\<rparr>], None), Returns ([''c''], None)),
        (Returns ([\<lparr>Score = 3, Member = ''c''\<rparr>], None), Returns ([], None))]"
    by (simp add: three_members_def)
  from ZPopMin_ascending [OF store_cache_client 1 2 3 4, of Background]
  have "fst (pop_each store_cache Background ''z'' (length three_members)
            (snd (ZAdd store_cache Background ''z'' three_members (state_of live_store))))
     = pops_of (sort_key Score three_members)"
    by blast
  with store_cache_client 1 2 3 4 show ?thesis
    unfolding 5 by blast
qed

text \<open>
  C6, as amended. For a non-empty list at key \<open>A\<close> and a list at another key \<open>B\<close>
  (what \<open>LRange\<close> shows of them is \<open>a # as\<close> and \<open>bs\<close>), \<open>LMove\<close> from the left of
  \<open>A\<close> to the right of \<open>B\<close> returns the head \<open>a\<close> with a \<^verbatim>\<open>nil\<close> error, and
  afterwards \<open>LRange\<close> shows \<open>as\<close> at \<open>A\<close> and \<open>bs @ [a]\<close> at \<open>B\<close>: \<open>A\<close> has lost
  its head and nothing else, \<open>B\<close> has gained that element at its tail and nothing
  else.
\<close>

theorem LMove_head_to_tail:
  assumes "client c = Some (store_client rest)" and "A \<noteq> B"
    and "fst (LRange c ctx A 0 (- 1) st) = Returns (a # as, None)"
    and "fst (LRange c ctx B 0 (- 1) st) = Returns (bs, None)"
  shows "fst (LMove c ctx A B ''LEFT'' ''RIGHT'' st) = Returns (a, None)
    \<and> fst (LRange c ctx A 0 (- 1) (snd (LMove c ctx A B ''LEFT'' ''RIGHT'' st))) = Returns (as, None)
    \<and> fst (LRange c ctx B 0 (- 1) (snd (LMove c ctx A B ''LEFT'' ''RIGHT'' st)))
        = Returns (bs @ [a], None)"
proof -
  from LRange_shows [OF assms(1,3)]
  have up: "conn (world st) = Connected" and A: "data (world st) A = Some (Lst (a # as))"
    by simp_all
  from LRange_shows [OF assms(1,4)]
  have B: "data (world st) B = Some (Lst bs) \<or> data (world st) B = None \<and> bs = []"
    by simp
  from B show ?thesis
  proof
    assume "data (world st) B = Some (Lst bs)"
    with assms(1,2) up A show ?thesis
      by (cases as)
         (simp_all add: LMove_def LRange_def store_client_fields store_LMove_def store_LRange_def
           answer_def side_of_LEFT side_of_RIGHT slice_whole Let_def)
  next
    assume "data (world st) B = None \<and> bs = []"
    with assms(1,2) up A show ?thesis
      by (cases as)
         (simp_all add: LMove_def LRange_def store_client_fields store_LMove_def store_LRange_def
           answer_def side_of_LEFT side_of_RIGHT slice_whole Let_def)
  qed
qed

theorem LMove_head_to_tail_witness:
  "client store_cache = Some (store_client no_commands)
   \<and> fst (LRange store_cache Background ''A'' 0 (- 1) (state_of two_lists))
     = Returns ([''a'', ''b''], None)
   \<and> fst (LRange store_cache Background ''B'' 0 (- 1) (state_of two_lists)) = Returns ([''c''], None)
   \<and> fst (LMove store_cache Background ''A'' ''B'' ''LEFT'' ''RIGHT'' (state_of two_lists))
     = Returns (''a'', None)
   \<and> fst (LRange store_cache Background ''A'' 0 (- 1)
            (snd (LMove store_cache Background ''A'' ''B'' ''LEFT'' ''RIGHT'' (state_of two_lists))))
     = Returns ([''b''], None)
   \<and> fst (LRange store_cache Background ''B'' 0 (- 1)
            (snd (LMove store_cache Background ''A'' ''B'' ''LEFT'' ''RIGHT'' (state_of two_lists))))
     = Returns ([''c'', ''a''], None)"
proof -
  have 1: "fst (LRange store_cache Background ''A'' 0 (- 1) (state_of two_lists))
     = Returns ([''a'', ''b''], None)"
    by (simp add: LRange_def store_cache_def store_client_fields store_LRange_def answer_def
        slice_whole state_of_def two_lists_def)
  have 2: "fst (LRange store_cache Background ''B'' 0 (- 1) (state_of two_lists))
     = Returns ([''c''], None)"
    by (simp add: LRange_def store_cache_def store_client_fields store_LRange_def answer_def
        slice_whole state_of_def two_lists_def)
  have 3: "''A'' \<noteq> ''B''"
    by simp
  from LMove_head_to_tail [OF store_cache_client 3 1 2] store_cache_client 1 2
  show ?thesis by simp
qed

text \<open>
  C6 as it was stated fails when \<open>B\<close> is \<open>A\<close> itself: the head goes to the tail of
  the same list, which keeps its two elements and is not one element shorter.
\<close>

theorem LMove_head_to_tail_counterexample:
  "fst (LRange store_cache Background ''A'' 0 (- 1) (state_of two_lists))
     = Returns ([''a'', ''b''], None)
   \<and> fst (LMove store_cache Background ''A'' ''A'' ''LEFT'' ''RIGHT'' (state_of two_lists))
     = Returns (''a'', None)
   \<and> fst (LRange store_cache Background ''A'' 0 (- 1)
            (snd (LMove store_cache Background ''A'' ''A'' ''LEFT'' ''RIGHT'' (state_of two_lists))))
     = Returns ([''b'', ''a''], None)
   \<and> fst (LRange store_cache Background ''A'' 0 (- 1)
            (snd (LMove store_cache Background ''A'' ''A'' ''LEFT'' ''RIGHT'' (state_of two_lists))))
     \<noteq> Returns ([''b''], None)"
  by (simp add: LRange_def LMove_def store_cache_def store_client_fields store_LRange_def
      store_LMove_def answer_def slice_whole side_of_LEFT side_of_RIGHT state_of_def two_lists_def
      Let_def)

text \<open>
  C8. On a facade over the store's client, whatever its state, \<open>Ping\<close> after
  \<open>Close\<close> returns, and returns the error \<^verbatim>\<open>redis: client is closed\<close>, which is not
  \<^verbatim>\<open>nil\<close> and not the sentinel.
\<close>

theorem Ping_after_Close:
  assumes "client c = Some (store_client rest)"
  shows "fst (Ping c ctx (snd (Close c st))) = Returns ('''', Some ErrClosed)"
  using assms
  by (cases "conn (world st)")
     (simp_all add: Ping_def Close_def store_client_fields store_Ping_def store_Close_def
       answer_def ErrClosed_def redis_Nil_def)

theorem Ping_after_Close_witness:
  "client store_cache = Some (store_client no_commands)
   \<and> fst (Close store_cache (state_of live_store)) = Returns None
   \<and> fst (Ping store_cache Background (snd (Close store_cache (state_of live_store))))
     = Returns ('''', Some (OtherError ''redis: client is closed''))"
proof -
  have 1: "fst (Close store_cache (state_of live_store)) = Returns None"
    by (simp add: Close_def store_cache_def store_client_fields store_Close_def state_of_def
        live_store_def)
  from Ping_after_Close [OF store_cache_client, of Background "state_of live_store"]
    store_cache_client 1
  show ?thesis by (simp add: ErrClosed_def)
qed

end
